theory Spec2Isabelle
  imports Complex_Main
begin

section \<open>The calculator skill and the part of its host interpreter that it runs on\<close>

text \<open>
  The program is \<^verbatim>\<open>.github/skills/calculator/skill.py\<close>: a function \<^verbatim>\<open>calculate\<close>
  that hands its argument to the interpreter's \<^verbatim>\<open>eval\<close> under the globals
  \<^verbatim>\<open>{"__builtins__": {}}\<close> and empty locals, serialises the outcome with
  \<^verbatim>\<open>json.dumps\<close>, and a main block that checks the argument count.

  \<^verbatim>\<open>eval\<close> and \<^verbatim>\<open>json.dumps\<close> belong to the interpreter, not to the repository.
  They are modelled here on a fragment of Python 3 expressions: decimal integer and
  imaginary literals, plain string literals, names, unary and binary \<^verbatim>\<open>+ - * / **\<close>,
  \<^verbatim>\<open>and\<close>/\<^verbatim>\<open>or\<close>, parentheses, calls and set displays. Whatever lies outside the
  fragment (other characters and keywords, floating point results that need rounding,
  integers beyond 4300 digits, nesting beyond a fixed budget, wording of messages that
  changed between releases) evaluates to the explicit outcome \<open>Unmodelled\<close>, about
  which nothing is claimed.

  A \<^typ>\<open>string\<close> stands for a Python \<^verbatim>\<open>str\<close> whose code points are below 256.
\<close>

subsection \<open>Outcomes and exceptions\<close>

datatype exn_class =
  SyntaxError | NameError | ZeroDivisionError | OverflowError | TypeError
  | KeyboardInterrupt | SystemExit

text \<open>An exception object: its class and the text \<^verbatim>\<open>str(e)\<close> gives.\<close>

datatype py_exn = PyExn exn_class string

fun str_exn :: "py_exn \<Rightarrow> string" where
  "str_exn (PyExn c m) = m"

text \<open>\<^verbatim>\<open>isinstance(e, Exception)\<close>: the two classes that derive from
  \<^verbatim>\<open>BaseException\<close> only are not caught by \<^verbatim>\<open>except Exception\<close>.\<close>

fun is_Exception :: "py_exn \<Rightarrow> bool" where
  "is_Exception (PyExn KeyboardInterrupt m) = False"
| "is_Exception (PyExn SystemExit m) = False"
| "is_Exception (PyExn c m) = True"

datatype 'a outcome = Returns 'a | Raises py_exn | Unmodelled

text \<open>The front end (tokenizer and parser) either accepts, rejects with a syntax error,
  or meets something outside the modelled fragment.\<close>

datatype 'a parse_result = Parsed 'a | Syntax_Error | Outside_Fragment

subsection \<open>Tokens\<close>

datatype token =
  TInt nat | TImag nat | TName string | TStr string
  | TPlus | TMinus | TStar | TDblStar | TSlash
  | TLPar | TRPar | TLBrace | TRBrace | TComma
  | TOr | TAnd

definition is_digit :: "char \<Rightarrow> bool" where
  "is_digit c = (c \<in> set ''0123456789'')"

definition is_alpha :: "char \<Rightarrow> bool" where
  "is_alpha c = (c \<in> set ''abcdefghijklmnopqrstuvwxyzABCDEFGHIJKLMNOPQRSTUVWXYZ_'')"

definition is_alnum :: "char \<Rightarrow> bool" where
  "is_alnum c = (is_alpha c \<or> is_digit c)"

definition is_quote :: "char \<Rightarrow> bool" where
  "is_quote c = (c = CHR 0x27 \<or> c = CHR 0x22)"

text \<open>Characters a modelled string literal may hold: printable ASCII, no backslash.\<close>

definition is_plain :: "char \<Rightarrow> bool" where
  "is_plain c = (32 \<le> (of_char c :: nat) \<and> (of_char c :: nat) < 127 \<and> c \<noteq> CHR 0x5C)"

definition digit_val :: "char \<Rightarrow> nat" where
  "digit_val c = of_char c - 48"

definition nat_of_digits :: "string \<Rightarrow> nat" where
  "nat_of_digits ds = foldl (\<lambda>a c. 10 * a + digit_val c) 0 ds"

text \<open>The reserved words of Python 3. Only \<^verbatim>\<open>and\<close> and \<^verbatim>\<open>or\<close> are modelled;
  \<^verbatim>\<open>__debug__\<close> is a name the compiler replaces by a constant.\<close>

definition py_keywords :: "string list" where
  "py_keywords =
    [''False'', ''None'', ''True'', ''and'', ''as'', ''assert'', ''async'', ''await'',
     ''break'', ''class'', ''continue'', ''def'', ''del'', ''elif'', ''else'', ''except'',
     ''finally'', ''for'', ''from'', ''global'', ''if'', ''import'', ''in'', ''is'',
     ''lambda'', ''nonlocal'', ''not'', ''or'', ''pass'', ''raise'', ''return'', ''try'',
     ''while'', ''with'', ''yield'']"

definition word_token :: "string \<Rightarrow> token parse_result" where
  "word_token w =
    (if w = ''or'' then Parsed TOr
     else if w = ''and'' then Parsed TAnd
     else if w \<in> set py_keywords \<or> w = ''__debug__'' then Outside_Fragment
     else Parsed (TName w))"

text \<open>The interpreter's limit on integer literals and on printing integers
  (\<^verbatim>\<open>sys.set_int_max_str_digits\<close>, 4300 by default where it exists).\<close>

definition max_str_digits :: nat where
  "max_str_digits = 4300"

fun cons_token :: "token \<Rightarrow> token list parse_result \<Rightarrow> token list parse_result" where
  "cons_token t (Parsed ts) = Parsed (t # ts)"
| "cons_token t Syntax_Error = Syntax_Error"
| "cons_token t Outside_Fragment = Outside_Fragment"

fun cons_word :: "string \<Rightarrow> token list parse_result \<Rightarrow> token list parse_result" where
  "cons_word w r =
    (case word_token w of
       Parsed t \<Rightarrow> cons_token t r
     | Syntax_Error \<Rightarrow> Syntax_Error
     | Outside_Fragment \<Rightarrow> Outside_Fragment)"

function tokenize :: "string \<Rightarrow> token list parse_result" where
  "tokenize [] = Parsed []"
| "tokenize (c # cs) =
    (if c = CHR '' '' then tokenize cs
     else if is_digit c then
       (let ds = c # takeWhile is_digit cs; rest = dropWhile is_digit cs in
        if (c = CHR ''0'' \<and> 1 < length ds) \<or> max_str_digits < length ds then Outside_Fragment
        else (case rest of
                [] \<Rightarrow> Parsed [TInt (nat_of_digits ds)]
              | r # rs \<Rightarrow>
                  if r = CHR ''j'' \<or> r = CHR ''J'' then
                    (case rs of
                       [] \<Rightarrow> Parsed [TImag (nat_of_digits ds)]
                     | q # qs \<Rightarrow>
                         if is_alnum q \<or> is_quote q then Outside_Fragment
                         else cons_token (TImag (nat_of_digits ds)) (tokenize rs))
                  else if is_alpha r \<or> is_quote r then Outside_Fragment
                  else cons_token (TInt (nat_of_digits ds)) (tokenize rest)))
     else if is_alpha c then
       (let w = c # takeWhile is_alnum cs; rest = dropWhile is_alnum cs in
        case rest of
          [] \<Rightarrow> cons_word w (Parsed [])
        | r # rs \<Rightarrow>
            if is_quote r then Outside_Fragment
            else cons_word w (tokenize rest))
     else if is_quote c then
       (let body = takeWhile (\<lambda>x. x \<noteq> c) cs; rest = dropWhile (\<lambda>x. x \<noteq> c) cs in
        if \<not> list_all is_plain body then Outside_Fragment
        else (case rest of
                [] \<Rightarrow> Syntax_Error
              | q # rs \<Rightarrow>
                  (case rs of
                     [] \<Rightarrow> Parsed [TStr body]
                   | r # rs' \<Rightarrow>
                       if is_quote r \<or> is_alnum r then Outside_Fragment
                       else cons_token (TStr body) (tokenize rs))))
     else if c = CHR ''*'' then
       (case cs of
          [] \<Rightarrow> Parsed [TStar]
        | r # rs \<Rightarrow> if r = CHR ''*'' then cons_token TDblStar (tokenize rs)
                    else cons_token TStar (tokenize cs))
     else if c = CHR ''/'' then
       (case cs of
          [] \<Rightarrow> Parsed [TSlash]
        | r # rs \<Rightarrow> if r = CHR ''/'' then Outside_Fragment
                    else cons_token TSlash (tokenize cs))
     else if c = CHR ''+'' then cons_token TPlus (tokenize cs)
     else if c = CHR ''-'' then cons_token TMinus (tokenize cs)
     else if c = CHR ''('' then cons_token TLPar (tokenize cs)
     else if c = CHR '')'' then cons_token TRPar (tokenize cs)
     else if c = CHR ''{'' then cons_token TLBrace (tokenize cs)
     else if c = CHR ''}'' then cons_token TRBrace (tokenize cs)
     else if c = CHR '','' then cons_token TComma (tokenize cs)
     else Outside_Fragment)"
  by pat_completeness auto
termination
proof -
  have drop1: "length ys < Suc (length xs)" if "y # ys = dropWhile P xs"
    for P and xs ys :: string and y
    using length_dropWhile_le [of P xs] that [symmetric] by simp
  have drop2: "length zs < length xs" if "y # z # zs = dropWhile P xs"
    for P and xs zs :: string and y z
    using length_dropWhile_le [of P xs] that [symmetric] by simp
  show ?thesis
    by (relation "measure length")
      (auto dest: drop1 drop2 intro: le_imp_less_Suc length_dropWhile_le)
qed

subsection \<open>Abstract syntax and parser\<close>

text \<open>The nodes are those of the interpreter's \<^verbatim>\<open>ast\<close> module; \<open>Power\<close> is its
  \<^verbatim>\<open>Pow\<close>, and a chain of \<^verbatim>\<open>and\<close> or \<^verbatim>\<open>or\<close> is nested to the left.\<close>

datatype operator = Add | Sub | Mult | Div | Power
datatype unaryop = UAdd | USub
datatype boolop = And | Or

datatype expr =
  IntLit nat | ImagLit nat | StrLit string | Name string
  | UnaryOp unaryop expr
  | BinOp expr operator expr
  | BoolOp boolop expr expr
  | Call expr "expr list"
  | SetDisplay "expr list"

type_synonym 'a parser = "token list \<Rightarrow> ('a \<times> token list) parse_result"

fun and_then :: "'a parse_result \<Rightarrow> ('a \<Rightarrow> 'b parse_result) \<Rightarrow> 'b parse_result" where
  "and_then (Parsed x) f = f x"
| "and_then Syntax_Error f = Syntax_Error"
| "and_then Outside_Fragment f = Outside_Fragment"

fun closing :: "token \<Rightarrow> 'a \<Rightarrow> 'a parser" where
  "closing c x [] = Syntax_Error"
| "closing c x (t # r) = (if t = c then Parsed (x, r) else Outside_Fragment)"

fun literal :: "token \<Rightarrow> expr option" where
  "literal (TInt k) = Some (IntLit k)"
| "literal (TImag k) = Some (ImagLit k)"
| "literal (TName x) = Some (Name x)"
| "literal (TStr s) = Some (StrLit s)"
| "literal t = None"

fun is_TStr :: "token \<Rightarrow> bool" where
  "is_TStr (TStr s) = True"
| "is_TStr t = False"

primrec chain :: "nat \<Rightarrow> (token \<Rightarrow> (expr \<Rightarrow> expr \<Rightarrow> expr) option) \<Rightarrow> expr parser \<Rightarrow> expr \<Rightarrow> expr parser" where
  "chain 0 ops operand l ts =
    (case ts of
       [] \<Rightarrow> Parsed (l, ts)
     | t # r \<Rightarrow> (case ops t of None \<Rightarrow> Parsed (l, ts) | Some mk \<Rightarrow> Outside_Fragment))"
| "chain (Suc k) ops operand l ts =
    (case ts of
       [] \<Rightarrow> Parsed (l, ts)
     | t # r \<Rightarrow>
         (case ops t of
            None \<Rightarrow> Parsed (l, ts)
          | Some mk \<Rightarrow> and_then (operand r) (\<lambda>(e, r'). chain k ops operand (mk l e) r')))"

definition binary_level :: "nat \<Rightarrow> (token \<Rightarrow> (expr \<Rightarrow> expr \<Rightarrow> expr) option) \<Rightarrow> expr parser \<Rightarrow> expr parser" where
  "binary_level n ops operand ts = and_then (operand ts) (\<lambda>(l, r). chain n ops operand l r)"

definition or_ops :: "token \<Rightarrow> (expr \<Rightarrow> expr \<Rightarrow> expr) option" where
  "or_ops t = (if t = TOr then Some (BoolOp Or) else None)"

definition and_ops :: "token \<Rightarrow> (expr \<Rightarrow> expr \<Rightarrow> expr) option" where
  "and_ops t = (if t = TAnd then Some (BoolOp And) else None)"

definition arith_ops :: "token \<Rightarrow> (expr \<Rightarrow> expr \<Rightarrow> expr) option" where
  "arith_ops t =
    (if t = TPlus then Some (\<lambda>l r. BinOp l Add r)
     else if t = TMinus then Some (\<lambda>l r. BinOp l Sub r)
     else None)"

definition term_ops :: "token \<Rightarrow> (expr \<Rightarrow> expr \<Rightarrow> expr) option" where
  "term_ops t =
    (if t = TStar then Some (\<lambda>l r. BinOp l Mult r)
     else if t = TSlash then Some (\<lambda>l r. BinOp l Div r)
     else None)"

primrec p_factor :: "nat \<Rightarrow> expr parser \<Rightarrow> expr parser" where
  "p_factor 0 primary ts = Outside_Fragment"
| "p_factor (Suc k) primary ts =
    (case ts of
       [] \<Rightarrow> Syntax_Error
     | t # r \<Rightarrow>
         if t = TPlus then and_then (p_factor k primary r) (\<lambda>(e, r'). Parsed (UnaryOp UAdd e, r'))
         else if t = TMinus then and_then (p_factor k primary r) (\<lambda>(e, r'). Parsed (UnaryOp USub e, r'))
         else and_then (primary ts) (\<lambda>(b, r).
                case r of
                  [] \<Rightarrow> Parsed (b, r)
                | t' # r' \<Rightarrow>
                    if t' = TDblStar then
                      and_then (p_factor k primary r') (\<lambda>(e, r''). Parsed (BinOp b Power e, r''))
                    else Parsed (b, r)))"

primrec p_elems :: "nat \<Rightarrow> expr parser \<Rightarrow> (expr list) parser" where
  "p_elems 0 sub ts = Outside_Fragment"
| "p_elems (Suc k) sub ts =
    and_then (sub ts) (\<lambda>(e, r).
      case r of
        [] \<Rightarrow> Parsed ([e], r)
      | t # r' \<Rightarrow>
          if t = TComma then and_then (p_elems k sub r') (\<lambda>(es, r''). Parsed (e # es, r''))
          else Parsed ([e], r))"

primrec p_trailers :: "nat \<Rightarrow> expr parser \<Rightarrow> expr \<Rightarrow> expr parser" where
  "p_trailers 0 sub f ts =
    (case ts of
       [] \<Rightarrow> Parsed (f, ts)
     | t # r \<Rightarrow> if t = TLPar then Outside_Fragment else Parsed (f, ts))"
| "p_trailers (Suc k) sub f ts =
    (case ts of
       [] \<Rightarrow> Parsed (f, ts)
     | t # r \<Rightarrow>
         if t = TLPar then
           (case r of
              [] \<Rightarrow> Syntax_Error
            | t' # r' \<Rightarrow>
                if t' = TRPar then p_trailers k sub (Call f []) r'
                else and_then (p_elems (Suc k) sub r) (\<lambda>(args, r'').
                       and_then (closing TRPar args r'') (\<lambda>(args, r'''). p_trailers k sub (Call f args) r''')))
         else Parsed (f, ts))"

definition p_atom :: "nat \<Rightarrow> expr parser \<Rightarrow> expr parser" where
  "p_atom n sub ts =
    (case ts of
       [] \<Rightarrow> Syntax_Error
     | t # r \<Rightarrow>
         if t = TLPar then and_then (sub r) (\<lambda>(e, r'). closing TRPar e r')
         else if t = TLBrace then
           and_then (p_elems n sub r) (\<lambda>(es, r'). closing TRBrace (SetDisplay es) r')
         else (case literal t of
                 None \<Rightarrow> Outside_Fragment
               | Some a \<Rightarrow>
                   if is_TStr t \<and> r \<noteq> [] \<and> is_TStr (hd r) then Outside_Fragment
                   else Parsed (a, r)))"

definition p_primary :: "nat \<Rightarrow> expr parser \<Rightarrow> expr parser" where
  "p_primary n sub ts = and_then (p_atom n sub ts) (\<lambda>(a, r). p_trailers n sub a r)"

definition p_term :: "nat \<Rightarrow> expr parser \<Rightarrow> expr parser" where
  "p_term n sub ts = binary_level n term_ops (p_factor n (p_primary n sub)) ts"

definition p_arith :: "nat \<Rightarrow> expr parser \<Rightarrow> expr parser" where
  "p_arith n sub ts = binary_level n arith_ops (p_term n sub) ts"

definition p_and :: "nat \<Rightarrow> expr parser \<Rightarrow> expr parser" where
  "p_and n sub ts = binary_level n and_ops (p_arith n sub) ts"

definition p_or :: "nat \<Rightarrow> expr parser \<Rightarrow> expr parser" where
  "p_or n sub ts = binary_level n or_ops (p_and n sub) ts"

primrec p_expr :: "nat \<Rightarrow> expr parser" where
  "p_expr 0 ts = Outside_Fragment"
| "p_expr (Suc n) ts = p_or (Suc n) (p_expr n) ts"

text \<open>How deeply brackets may nest, and how many operators, signs, calls or elements may
  follow one another, before an expression is left outside the model: the interpreter's
  own limits on nesting differ between releases.\<close>

definition parse_budget :: nat where
  "parse_budget = 64"

definition py_parse :: "string \<Rightarrow> expr parse_result" where
  "py_parse source =
     and_then (tokenize source) (\<lambda>ts.
       and_then (p_expr parse_budget ts) (\<lambda>(e, r).
         if r = [] then Parsed e else Outside_Fragment))"

subsection \<open>Values\<close>

text \<open>
  \<open>VFloat s m\<close> is the float of sign \<open>s\<close> (True for negative) and magnitude \<open>m\<close>, an
  integer below \<open>2 ^ 53\<close>: the floats the model can name without rounding, with both
  zeros. \<open>VComplex re im\<close> has integer parts of magnitude below \<open>2 ^ 53\<close>; the sign of a
  zero part is not recorded. \<open>VSet\<close> lists the elements in the order they were added, and
  \<open>VDict\<close> the items of a dict whose keys are strings.
\<close>

datatype val =
  VInt int
  | VFloat bool nat
  | VComplex int int
  | VStr string
  | VSet "val list"
  | VDict "(string \<times> val) list"

fun type_name :: "val \<Rightarrow> string" where
  "type_name (VInt n) = ''int''"
| "type_name (VFloat s m) = ''float''"
| "type_name (VComplex re im) = ''complex''"
| "type_name (VStr s) = ''str''"
| "type_name (VSet xs) = ''set''"
| "type_name (VDict kvs) = ''dict''"

definition quoted :: "string \<Rightarrow> string" where
  "quoted s = [CHR 0x27] @ s @ [CHR 0x27]"

text \<open>Integers of more than \<open>max_str_digits\<close> digits are left out of the model.\<close>

definition fits :: "int \<Rightarrow> bool" where
  "fits n = (\<bar>n\<bar> < 10 ^ max_str_digits)"

definition int_result :: "int \<Rightarrow> val outcome" where
  "int_result n = (if fits n then Returns (VInt n) else Unmodelled)"

definition exact_float :: "int \<Rightarrow> bool" where
  "exact_float n = (\<bar>n\<bar> < 2 ^ 53)"

text \<open>\<^verbatim>\<open>int.__truediv__\<close>: the correctly rounded quotient. The model names it when it is
  an integer below \<open>2 ^ 53\<close> (no rounding) and when it is too large for any float.\<close>

definition true_divide :: "int \<Rightarrow> int \<Rightarrow> val outcome" where
  "true_divide a b =
    (if b = 0 then Raises (PyExn ZeroDivisionError ''division by zero'')
     else if 2 ^ 1024 * \<bar>b\<bar> \<le> \<bar>a\<bar> then
       Raises (PyExn OverflowError ''integer division result too large for a float'')
     else if b dvd a \<and> exact_float (a div b) then
       Returns (VFloat ((a < 0) \<noteq> (b < 0)) (nat \<bar>a div b\<bar>))
     else Unmodelled)"

definition int_binop :: "operator \<Rightarrow> int \<Rightarrow> int \<Rightarrow> val outcome" where
  "int_binop op a b =
    (case op of
       Add \<Rightarrow> int_result (a + b)
     | Sub \<Rightarrow> int_result (a - b)
     | Mult \<Rightarrow> int_result (a * b)
     | Div \<Rightarrow> true_divide a b
     | Power \<Rightarrow> if b < 0 then Unmodelled else int_result (a ^ nat b))"

definition complex_result :: "int \<Rightarrow> int \<Rightarrow> val outcome" where
  "complex_result re im =
    (if exact_float re \<and> exact_float im then Returns (VComplex re im) else Unmodelled)"

definition complex_binop :: "operator \<Rightarrow> int \<times> int \<Rightarrow> int \<times> int \<Rightarrow> val outcome" where
  "complex_binop op x y =
    (case (x, y) of ((a, b), (c, d)) \<Rightarrow>
       (case op of
          Add \<Rightarrow> complex_result (a + c) (b + d)
        | Sub \<Rightarrow> complex_result (a - c) (b - d)
        | Mult \<Rightarrow>
            if exact_float (a * c) \<and> exact_float (b * d) \<and> exact_float (a * d)
               \<and> exact_float (b * c)
            then complex_result (a * c - b * d) (a * d + b * c)
            else Unmodelled
        | Div \<Rightarrow> Unmodelled
        | Power \<Rightarrow> Unmodelled))"

fun as_complex :: "val \<Rightarrow> (int \<times> int) option" where
  "as_complex (VInt n) = (if exact_float n then Some (n, 0) else None)"
| "as_complex (VComplex re im) = Some (re, im)"
| "as_complex v = None"

definition op_symbol :: "operator \<Rightarrow> string" where
  "op_symbol op =
    (case op of Add \<Rightarrow> ''+'' | Sub \<Rightarrow> ''-'' | Mult \<Rightarrow> ''*'' | Div \<Rightarrow> ''/''
     | Power \<Rightarrow> ''** or pow()'')"

definition unsupported :: "operator \<Rightarrow> val \<Rightarrow> val \<Rightarrow> val outcome" where
  "unsupported op x y =
    Raises (PyExn TypeError
      (''unsupported operand type(s) for '' @ op_symbol op @ '': ''
        @ quoted (type_name x) @ '' and '' @ quoted (type_name y)))"

fun is_number :: "val \<Rightarrow> bool" where
  "is_number (VInt n) = True"
| "is_number (VFloat s m) = True"
| "is_number (VComplex re im) = True"
| "is_number v = False"

fun is_dict :: "val \<Rightarrow> bool" where
  "is_dict (VDict kvs) = True"
| "is_dict v = False"

text \<open>A binary operator on two values that are already computed.\<close>

definition binop :: "operator \<Rightarrow> val \<Rightarrow> val \<Rightarrow> val outcome" where
  "binop op x y =
    (case (x, y) of
       (VInt a, VInt b) \<Rightarrow> int_binop op a b
     | (VInt a, VComplex c d) \<Rightarrow>
         (case as_complex x of None \<Rightarrow> Unmodelled | Some p \<Rightarrow> complex_binop op p (c, d))
     | (VComplex a b, VInt c) \<Rightarrow>
         (case as_complex y of None \<Rightarrow> Unmodelled | Some q \<Rightarrow> complex_binop op (a, b) q)
     | (VComplex a b, VComplex c d) \<Rightarrow> complex_binop op (a, b) (c, d)
     | _ \<Rightarrow>
         if (is_dict x \<and> (is_dict y \<or> is_number y)) \<or> (is_number x \<and> is_dict y)
         then unsupported op x y
         else Unmodelled)"

definition bad_operand :: "string \<Rightarrow> val \<Rightarrow> val outcome" where
  "bad_operand symbol x =
    Raises (PyExn TypeError (''bad operand type for unary '' @ symbol @ '': '' @ quoted (type_name x)))"

fun unary :: "unaryop \<Rightarrow> val \<Rightarrow> val outcome" where
  "unary USub (VInt n) = int_result (- n)"
| "unary UAdd (VInt n) = int_result n"
| "unary USub (VFloat s m) = Returns (VFloat (\<not> s) m)"
| "unary UAdd (VFloat s m) = Returns (VFloat s m)"
| "unary USub (VComplex re im) = Returns (VComplex (- re) (- im))"
| "unary UAdd (VComplex re im) = Returns (VComplex re im)"
| "unary USub x = bad_operand ''-'' x"
| "unary UAdd x = bad_operand ''+'' x"

text \<open>\<^verbatim>\<open>bool(x)\<close>.\<close>

fun truthy :: "val \<Rightarrow> bool" where
  "truthy (VInt n) = (n \<noteq> 0)"
| "truthy (VFloat s m) = (m \<noteq> 0)"
| "truthy (VComplex re im) = (re \<noteq> 0 \<or> im \<noteq> 0)"
| "truthy (VStr s) = (s \<noteq> [])"
| "truthy (VSet xs) = (xs \<noteq> [])"
| "truthy (VDict kvs) = (kvs \<noteq> [])"

text \<open>Two hashable values are the same set element when they are equal: numbers by
  their value, whatever their type, and strings by their text.\<close>

fun element_key :: "val \<Rightarrow> (int \<times> int) + string" where
  "element_key (VInt n) = Inl (n, 0)"
| "element_key (VFloat s m) = Inl (if s then - int m else int m, 0)"
| "element_key (VComplex re im) = Inl (re, im)"
| "element_key (VStr s) = Inr s"
| "element_key v = Inr []"

fun set_add :: "val list \<Rightarrow> val \<Rightarrow> val list" where
  "set_add xs v = (if element_key v \<in> element_key ` set xs then xs else xs @ [v])"

fun hashable :: "val \<Rightarrow> bool" where
  "hashable (VSet xs) = False"
| "hashable (VDict kvs) = False"
| "hashable v = True"

text \<open>\<^verbatim>\<open>BUILD_SET\<close>. The wording of the error for an unhashable element differs between
  releases, so that case is left out.\<close>

definition build_set :: "val list \<Rightarrow> val outcome" where
  "build_set vs = (if list_all hashable vs then Returns (VSet (foldl set_add [] vs)) else Unmodelled)"

definition not_callable :: "val \<Rightarrow> val outcome" where
  "not_callable f = Raises (PyExn TypeError (quoted (type_name f) @ '' object is not callable''))"

text \<open>\<^verbatim>\<open>LOAD_NAME\<close>: the locals, then the globals, then the builtins, which are the
  value the globals hold under \<^verbatim>\<open>__builtins__\<close>.\<close>

type_synonym namespace = "(string \<times> val) list"

definition load_name :: "namespace \<Rightarrow> namespace \<Rightarrow> string \<Rightarrow> val outcome" where
  "load_name globals locals x =
    (case map_of locals x of
       Some v \<Rightarrow> Returns v
     | None \<Rightarrow>
         (case map_of globals x of
            Some v \<Rightarrow> Returns v
          | None \<Rightarrow>
              (case map_of globals ''__builtins__'' of
                 Some (VDict builtins) \<Rightarrow>
                   (case map_of builtins x of
                      Some v \<Rightarrow> Returns v
                    | None \<Rightarrow>
                        Raises (PyExn NameError (''name '' @ quoted x @ '' is not defined'')))
               | _ \<Rightarrow> Unmodelled)))"

fun bind :: "'a outcome \<Rightarrow> ('a \<Rightarrow> 'b outcome) \<Rightarrow> 'b outcome" where
  "bind (Returns x) f = f x"
| "bind (Raises e) f = Raises e"
| "bind Unmodelled f = Unmodelled"

fun eval_expr :: "namespace \<Rightarrow> namespace \<Rightarrow> expr \<Rightarrow> val outcome"
  and eval_exprs :: "namespace \<Rightarrow> namespace \<Rightarrow> expr list \<Rightarrow> val list outcome"
where
  "eval_expr g l (IntLit k) = Returns (VInt (int k))"
| "eval_expr g l (ImagLit k) = complex_result 0 (int k)"
| "eval_expr g l (StrLit s) = Returns (VStr s)"
| "eval_expr g l (Name x) = load_name g l x"
| "eval_expr g l (UnaryOp op e) = bind (eval_expr g l e) (unary op)"
| "eval_expr g l (BinOp a op b) =
    bind (eval_expr g l a) (\<lambda>x. bind (eval_expr g l b) (\<lambda>y. binop op x y))"
| "eval_expr g l (BoolOp Or a b) =
    bind (eval_expr g l a) (\<lambda>x. if truthy x then Returns x else eval_expr g l b)"
| "eval_expr g l (BoolOp And a b) =
    bind (eval_expr g l a) (\<lambda>x. if truthy x then eval_expr g l b else Returns x)"
| "eval_expr g l (Call f args) =
    bind (eval_expr g l f) (\<lambda>fv. bind (eval_exprs g l args) (\<lambda>vs. not_callable fv))"
| "eval_expr g l (SetDisplay es) = bind (eval_exprs g l es) build_set"
| "eval_exprs g l [] = Returns []"
| "eval_exprs g l (e # es) =
    bind (eval_expr g l e) (\<lambda>v. bind (eval_exprs g l es) (\<lambda>vs. Returns (v # vs)))"

text \<open>The builtin \<^verbatim>\<open>eval(source, globals, locals)\<close>. The text of a syntax error is not
  the same in all releases of the interpreter: \<open>syntax_msg\<close> gives it for a source.\<close>

definition py_eval :: "(string \<Rightarrow> string) \<Rightarrow> string \<Rightarrow> namespace \<Rightarrow> namespace \<Rightarrow> val outcome" where
  "py_eval syntax_msg source globals locals =
    (case py_parse source of
       Parsed e \<Rightarrow> eval_expr globals locals e
     | Syntax_Error \<Rightarrow> Raises (PyExn SyntaxError (syntax_msg source))
     | Outside_Fragment \<Rightarrow> Unmodelled)"

subsection \<open>\<^verbatim>\<open>json.dumps\<close> with its default settings\<close>

definition digit_char :: "nat \<Rightarrow> char" where
  "digit_char d = ''0123456789'' ! d"

fun show_nat :: "nat \<Rightarrow> string" where
  "show_nat n = (if n < 10 then [digit_char n] else show_nat (n div 10) @ [digit_char (n mod 10)])"

declare show_nat.simps [simp del]

definition show_int :: "int \<Rightarrow> string" where
  "show_int n = (if n < 0 then ''-'' @ show_nat (nat (- n)) else show_nat (nat n))"

definition hex_char :: "nat \<Rightarrow> char" where
  "hex_char d = ''0123456789abcdef'' ! d"

definition json_escape :: "char \<Rightarrow> string" where
  "json_escape c =
    (if c = CHR 0x22 then [CHR 0x5C, CHR 0x22]
     else if c = CHR 0x5C then [CHR 0x5C, CHR 0x5C]
     else if c = CHR 0x0A then [CHR 0x5C, CHR ''n'']
     else if c = CHR 0x0D then [CHR 0x5C, CHR ''r'']
     else if c = CHR 0x09 then [CHR 0x5C, CHR ''t'']
     else if c = CHR 0x08 then [CHR 0x5C, CHR ''b'']
     else if c = CHR 0x0C then [CHR 0x5C, CHR ''f'']
     else if 32 \<le> (of_char c :: nat) \<and> (of_char c :: nat) < 127 then [c]
     else [CHR 0x5C, CHR ''u'', CHR ''0'', CHR ''0'',
           hex_char (of_char c div 16), hex_char (of_char c mod 16)])"

definition json_string :: "string \<Rightarrow> string" where
  "json_string s = [CHR 0x22] @ concat (map json_escape s) @ [CHR 0x22]"

fun join :: "string \<Rightarrow> string list \<Rightarrow> string" where
  "join sep [] = []"
| "join sep [x] = x"
| "join sep (x # y # ys) = x @ sep @ join sep (y # ys)"

definition not_serializable :: "val \<Rightarrow> 'a outcome" where
  "not_serializable v =
    Raises (PyExn TypeError (''Object of type '' @ type_name v @ '' is not JSON serializable''))"

fun json_dumps :: "val \<Rightarrow> string outcome"
  and json_items :: "(string \<times> val) list \<Rightarrow> string list outcome"
where
  "json_dumps (VInt n) = (if fits n then Returns (show_int n) else Unmodelled)"
| "json_dumps (VFloat s m) =
    (if exact_float (int m) then Returns ((if s then ''-'' else []) @ show_nat m @ ''.0'')
     else Unmodelled)"
| "json_dumps (VStr s) = Returns (json_string s)"
| "json_dumps (VDict kvs) = bind (json_items kvs) (\<lambda>items. Returns (''{'' @ join '', '' items @ ''}''))"
| "json_dumps (VSet xs) = not_serializable (VSet xs)"
| "json_dumps (VComplex re im) = not_serializable (VComplex re im)"
| "json_items [] = Returns []"
| "json_items ((k, v) # kvs) =
    bind (json_dumps v) (\<lambda>s. bind (json_items kvs) (\<lambda>items.
      Returns ((json_string k @ '': '' @ s) # items)))"

subsection \<open>The program\<close>

text \<open>\<^verbatim>\<open>try: body except Exception as e: handler(e)\<close>.\<close>

fun try_except_Exception :: "'a outcome \<Rightarrow> (py_exn \<Rightarrow> 'a outcome) \<Rightarrow> 'a outcome" where
  "try_except_Exception (Returns x) handler = Returns x"
| "try_except_Exception (Raises e) handler = (if is_Exception e then handler e else Raises e)"
| "try_except_Exception Unmodelled handler = Unmodelled"

definition allowed_names :: namespace where
  "allowed_names = [(''__builtins__'', VDict [])]"

definition calculate :: "(string \<Rightarrow> string) \<Rightarrow> string \<Rightarrow> string outcome" where
  "calculate syntax_msg expression =
    try_except_Exception
      (bind (py_eval syntax_msg expression allowed_names []) (\<lambda>result.
         json_dumps (VDict [(''status'', VStr ''success''), (''result'', result)])))
      (\<lambda>e. json_dumps (VDict [(''status'', VStr ''error''), (''message'', VStr (str_exn e))]))"

text \<open>The main block, run on \<^verbatim>\<open>sys.argv\<close>: what it writes to standard output and the
  exit status of the process. \<^verbatim>\<open>print\<close> adds the newline.\<close>

definition usage :: string where
  "usage = ''Usage: ./run_skill.sh '' @ quoted ''<expression>''"

definition main :: "(string \<Rightarrow> string) \<Rightarrow> string list \<Rightarrow> (string \<times> int) outcome" where
  "main syntax_msg argv =
    (if length argv \<noteq> 2 then
       bind (json_dumps (VDict [(''status'', VStr ''error''), (''message'', VStr usage)]))
         (\<lambda>out. Returns (out @ [CHR 0x0A], 1))
     else
       bind (calculate syntax_msg (argv ! 1)) (\<lambda>out. Returns (out @ [CHR 0x0A], 0)))"

subsection \<open>The two shapes of an output line\<close>

text \<open>The line for a result whose JSON text is \<open>r\<close>, and the line for a message \<open>m\<close>.\<close>

definition success_line :: "string \<Rightarrow> string" where
  \<open>success_line r = ''{"status": "success", "result": '' @ r @ ''}''\<close>

definition error_line :: "string \<Rightarrow> string" where
  \<open>error_line m = ''{"status": "error", "message": '' @ json_string m @ ''}''\<close>

text \<open>A sample of the parameter \<open>syntax_msg\<close>, for closed statements about inputs that have
  no syntax error: it gives every source the text that CPython 3.11 has for \<^verbatim>\<open>2+\<close>. The
  interpreter's own texts differ from source to source (\<^verbatim>\<open>'(' was never closed\<close> for
  \<^verbatim>\<open>(1\<close>), and no statement below rests on the value of this sample.\<close>

definition invalid_syntax :: "string \<Rightarrow> string" where
  "invalid_syntax source = ''invalid syntax (<string>, line 1)''"

subsection \<open>Notions the claims are stated with\<close>

text \<open>None of what follows is code of the program: these are the notions of the
  specification that the theorems need.

  The names of an expression that stand where they are evaluated whenever the
  evaluation gets that far: all but those in the right operand of \<^verbatim>\<open>and\<close> or \<^verbatim>\<open>or\<close>.\<close>

fun strict_names :: "expr \<Rightarrow> string list"
  and strict_names_list :: "expr list \<Rightarrow> string list"
where
  "strict_names (IntLit k) = []"
| "strict_names (ImagLit k) = []"
| "strict_names (StrLit s) = []"
| "strict_names (Name x) = [x]"
| "strict_names (UnaryOp op e) = strict_names e"
| "strict_names (BinOp a op b) = strict_names a @ strict_names b"
| "strict_names (BoolOp op a b) = strict_names a"
| "strict_names (Call f args) = strict_names f @ strict_names_list args"
| "strict_names (SetDisplay es) = strict_names_list es"
| "strict_names_list [] = []"
| "strict_names_list (e # es) = strict_names e @ strict_names_list es"

text \<open>All names of an expression.\<close>

fun names :: "expr \<Rightarrow> string list"
  and names_list :: "expr list \<Rightarrow> string list"
where
  "names (IntLit k) = []"
| "names (ImagLit k) = []"
| "names (StrLit s) = []"
| "names (Name x) = [x]"
| "names (UnaryOp op e) = names e"
| "names (BinOp a op b) = names a @ names b"
| "names (BoolOp op a b) = names a @ names b"
| "names (Call f args) = names f @ names_list args"
| "names (SetDisplay es) = names_list es"
| "names_list [] = []"
| "names_list (e # es) = names e @ names_list es"

text \<open>The mathematical value of an expression built from integer literals, signs and
  \<^verbatim>\<open>+ - * / **\<close>, where it is an integer: a quotient has a value when the division
  leaves no remainder, a power when the exponent is not negative.\<close>

fun arith_value :: "expr \<Rightarrow> int option" where
  "arith_value (IntLit k) = Some (int k)"
| "arith_value (UnaryOp op e) =
    (case arith_value e of
       None \<Rightarrow> None
     | Some x \<Rightarrow> (case op of UAdd \<Rightarrow> Some x | USub \<Rightarrow> Some (- x)))"
| "arith_value (BinOp a op b) =
    (case arith_value a of
       None \<Rightarrow> None
     | Some x \<Rightarrow>
         (case arith_value b of
            None \<Rightarrow> None
          | Some y \<Rightarrow>
              (case op of
                 Add \<Rightarrow> Some (x + y)
               | Sub \<Rightarrow> Some (x - y)
               | Mult \<Rightarrow> Some (x * y)
               | Div \<Rightarrow> if y \<noteq> 0 \<and> y dvd x then Some (x div y) else None
               | Power \<Rightarrow> if 0 \<le> y then Some (x ^ nat y) else None)))"
| "arith_value e = None"

fun division_free :: "expr \<Rightarrow> bool" where
  "division_free (UnaryOp op e) = division_free e"
| "division_free (BinOp a op b) = (op \<noteq> Div \<and> division_free a \<and> division_free b)"
| "division_free e = True"

text \<open>Every value that arises stays within \<open>max_str_digits\<close> digits.\<close>

definition value_fits :: "expr \<Rightarrow> bool" where
  "value_fits e = (case arith_value e of None \<Rightarrow> True | Some v \<Rightarrow> fits v)"

fun within_limits :: "expr \<Rightarrow> bool" where
  "within_limits (UnaryOp op e) = (within_limits e \<and> value_fits (UnaryOp op e))"
| "within_limits (BinOp a op b) = (within_limits a \<and> within_limits b \<and> value_fits (BinOp a op b))"
| "within_limits e = value_fits e"

text \<open>The spelling of an arithmetic expression in which every operand that is not a
  literal stands in brackets, without blanks: \<open>source_of p e\<close> is the text of \<open>e\<close>, in
  brackets when \<open>p\<close> holds (the position of an operand), and \<open>tokens_of p e\<close> is the list
  of its tokens. \<^verbatim>\<open>(2+3)*4\<close> and \<^verbatim>\<open>-(2**10)\<close> are such spellings.\<close>

fun op_text :: "operator \<Rightarrow> string" where
  "op_text Add = ''+''"
| "op_text Sub = ''-''"
| "op_text Mult = ''*''"
| "op_text Div = ''/''"
| "op_text Power = ''**''"

fun op_token :: "operator \<Rightarrow> token" where
  "op_token Add = TPlus"
| "op_token Sub = TMinus"
| "op_token Mult = TStar"
| "op_token Div = TSlash"
| "op_token Power = TDblStar"

fun sign_text :: "unaryop \<Rightarrow> string" where
  "sign_text UAdd = ''+''"
| "sign_text USub = ''-''"

fun sign_token :: "unaryop \<Rightarrow> token" where
  "sign_token UAdd = TPlus"
| "sign_token USub = TMinus"

definition bracketed :: "bool \<Rightarrow> string \<Rightarrow> string" where
  "bracketed p s = (if p then ''('' @ s @ '')'' else s)"

fun source_of :: "bool \<Rightarrow> expr \<Rightarrow> string" where
  "source_of p (IntLit k) = show_nat k"
| "source_of p (UnaryOp op e) = bracketed p (sign_text op @ source_of True e)"
| "source_of p (BinOp a op b) = bracketed p (source_of True a @ op_text op @ source_of True b)"
| "source_of p e = []"

definition bracketed_tokens :: "bool \<Rightarrow> token list \<Rightarrow> token list" where
  "bracketed_tokens p ts = (if p then [TLPar] @ ts @ [TRPar] else ts)"

fun tokens_of :: "bool \<Rightarrow> expr \<Rightarrow> token list" where
  "tokens_of p (IntLit k) = [TInt k]"
| "tokens_of p (UnaryOp op e) = bracketed_tokens p (sign_token op # tokens_of True e)"
| "tokens_of p (BinOp a op b) = bracketed_tokens p (tokens_of True a @ op_token op # tokens_of True b)"
| "tokens_of p e = []"

text \<open>The expressions that have such a spelling, every literal within \<open>max_str_digits\<close>
  digits, and the nesting of their operators.\<close>

fun arithmetic :: "expr \<Rightarrow> bool" where
  "arithmetic (IntLit k) = fits (int k)"
| "arithmetic (UnaryOp op e) = arithmetic e"
| "arithmetic (BinOp a op b) = (arithmetic a \<and> arithmetic b)"
| "arithmetic e = False"

fun depth :: "expr \<Rightarrow> nat" where
  "depth (UnaryOp op e) = Suc (depth e)"
| "depth (BinOp a op b) = Suc (max (depth a) (depth b))"
| "depth e = 0"

text \<open>What may follow a number and what may follow an operand in such a text, how an
  operand begins, the tokens put in front of the outcome of the tokenizer, and what may
  follow an expression in a list of tokens: nothing or a closing bracket.\<close>

definition ends_number :: "string \<Rightarrow> bool" where
  "ends_number s = (case s of [] \<Rightarrow> True | c # cs \<Rightarrow> \<not> is_digit c \<and> \<not> is_alpha c \<and> \<not> is_quote c)"

definition ends_expr :: "string \<Rightarrow> bool" where
  "ends_expr s = (case s of [] \<Rightarrow> True | c # cs \<Rightarrow> c \<in> set '')+-*/'')"

definition starts_operand :: "string \<Rightarrow> bool" where
  "starts_operand s = (case s of [] \<Rightarrow> False | c # cs \<Rightarrow> is_digit c \<or> c = CHR ''('')"

definition cons_tokens :: "token list \<Rightarrow> token list parse_result \<Rightarrow> token list parse_result" where
  "cons_tokens ts r = foldr cons_token ts r"

definition stop :: "token list \<Rightarrow> bool" where
  "stop ts = (case ts of [] \<Rightarrow> True | t # r \<Rightarrow> t = TRPar)"

section \<open>Evaluating concrete inputs\<close>

lemmas chain_numeral = chain.simps(2) [of "pred_numeral k" for k, folded numeral_eq_Suc]
lemmas p_factor_numeral = p_factor.simps(2) [of "pred_numeral k" for k, folded numeral_eq_Suc]
lemmas p_elems_numeral = p_elems.simps(2) [of "pred_numeral k" for k, folded numeral_eq_Suc]
lemmas p_trailers_numeral = p_trailers.simps(2) [of "pred_numeral k" for k, folded numeral_eq_Suc]
lemmas p_expr_numeral = p_expr.simps(2) [of "pred_numeral k" for k, folded numeral_eq_Suc]

lemmas lexer_defs =
  is_digit_def is_alpha_def is_alnum_def is_quote_def is_plain_def digit_val_def
  nat_of_digits_def word_token_def py_keywords_def max_str_digits_def

lemmas parser_defs =
  py_parse_def parse_budget_def p_or_def p_and_def p_arith_def p_term_def p_primary_def
  p_atom_def binary_level_def or_ops_def and_ops_def arith_ops_def term_ops_def
  chain_numeral p_factor_numeral p_elems_numeral p_trailers_numeral p_expr_numeral

lemmas value_defs =
  allowed_names_def load_name_def binop_def int_binop_def int_result_def
  true_divide_def exact_float_def complex_binop_def complex_result_def unsupported_def
  op_symbol_def bad_operand_def not_callable_def build_set_def quoted_def

lemmas json_defs =
  json_string_def json_escape_def show_int_def show_nat.simps digit_char_def hex_char_def
  not_serializable_def

lemma fits_small: "\<bar>n\<bar> < 10 ^ 18 \<Longrightarrow> fits n"
proof -
  assume "\<bar>n\<bar> < 10 ^ 18"
  moreover have "(10::int) ^ 18 \<le> 10 ^ max_str_digits"
    by (rule power_increasing) (simp_all add: max_str_digits_def)
  ultimately show ?thesis by (simp add: fits_def)
qed

lemma error_doc:
  "json_dumps (VDict [(''status'', VStr ''error''), (''message'', VStr m)]) = Returns (error_line m)"
  by (simp add: error_line_def json_string_def json_escape_def)

lemma success_doc:
  "json_dumps (VDict [(''status'', VStr ''success''), (''result'', v)])
    = bind (json_dumps v) (\<lambda>r. Returns (success_line r))"
  by (cases "json_dumps v") (simp_all add: success_line_def json_string_def json_escape_def)

text \<open>\<^verbatim>\<open>calculate\<close>, case by case.\<close>

lemma calculate_cases:
  "calculate syntax_msg expression =
    (case py_eval syntax_msg expression allowed_names [] of
       Returns v \<Rightarrow>
         (case json_dumps v of
            Returns r \<Rightarrow> Returns (success_line r)
          | Raises x \<Rightarrow> if is_Exception x then Returns (error_line (str_exn x)) else Raises x
          | Unmodelled \<Rightarrow> Unmodelled)
     | Raises x \<Rightarrow> if is_Exception x then Returns (error_line (str_exn x)) else Raises x
     | Unmodelled \<Rightarrow> Unmodelled)"
  by (simp add: calculate_def error_doc success_doc del: json_dumps.simps split: outcome.splits)

section \<open>What can be raised\<close>

lemma load_name_raises: "load_name g l x = Raises ex \<Longrightarrow> is_Exception ex"
  by (auto simp: load_name_def split: option.splits val.splits)

lemma int_result_raises: "int_result n \<noteq> Raises ex"
  by (simp add: int_result_def)

lemma complex_result_raises: "complex_result re im \<noteq> Raises ex"
  by (simp add: complex_result_def)

lemma unary_raises: "unary op v = Raises ex \<Longrightarrow> is_Exception ex"
  by (cases op; cases v) (auto simp: int_result_def bad_operand_def split: if_splits)

lemma true_divide_raises: "true_divide a b = Raises ex \<Longrightarrow> is_Exception ex"
  by (auto simp: true_divide_def split: if_splits)

lemma int_binop_raises: "int_binop op a b = Raises ex \<Longrightarrow> is_Exception ex"
  by (cases op) (auto simp: int_binop_def int_result_def dest: true_divide_raises split: if_splits)

lemma complex_binop_raises: "complex_binop op p q \<noteq> Raises ex"
  by (cases op; cases p; cases q) (auto simp: complex_binop_def complex_result_def)

lemma binop_raises: "binop op x y = Raises ex \<Longrightarrow> is_Exception ex"
  by (cases x; cases y)
    (auto simp: binop_def unsupported_def complex_binop_raises dest: int_binop_raises
      split: if_splits option.splits)

lemma build_set_raises: "build_set vs \<noteq> Raises ex"
  by (simp add: build_set_def)

lemma bind_Raises:
  "bind m f = Raises ex \<longleftrightarrow> m = Raises ex \<or> (\<exists>x. m = Returns x \<and> f x = Raises ex)"
  by (cases m) auto

lemma bind_Returns:
  "bind m f = Returns y \<longleftrightarrow> (\<exists>x. m = Returns x \<and> f x = Returns y)"
  by (cases m) auto

lemma bind_Unmodelled:
  "bind m f = Unmodelled \<longleftrightarrow> m = Unmodelled \<or> (\<exists>x. m = Returns x \<and> f x = Unmodelled)"
  by (cases m) auto

lemma eval_raises:
  "eval_expr g l e = Raises ex \<Longrightarrow> is_Exception ex"
  "eval_exprs g l es = Raises ex \<Longrightarrow> is_Exception ex"
proof (induction g l e and g l es arbitrary: ex and ex rule: eval_expr_eval_exprs.induct)
  case (4 g l x)
  then show ?case by (auto dest: load_name_raises)
next
  case (5 g l op e)
  then show ?case by (auto simp: bind_Raises dest: unary_raises)
next
  case (6 g l a op b)
  then show ?case by (auto simp: bind_Raises dest: binop_raises)
next
  case (7 g l a b)
  then show ?case by (auto simp: bind_Raises split: if_splits)
next
  case (8 g l a b)
  then show ?case by (auto simp: bind_Raises split: if_splits)
next
  case (9 g l f args)
  then show ?case by (auto simp: bind_Raises not_callable_def)
next
  case (10 g l es)
  then show ?case by (auto simp: bind_Raises build_set_raises)
next
  case (12 g l e es)
  then show ?case by (auto simp: bind_Raises)
qed (auto simp: complex_result_def split: if_splits)

lemma py_eval_raises: "py_eval syntax_msg source g l = Raises ex \<Longrightarrow> is_Exception ex"
  by (auto simp: py_eval_def dest: eval_raises(1) split: parse_result.splits)

lemma json_dumps_raises:
  "json_dumps v = Raises ex \<Longrightarrow> is_Exception ex"
  "json_items kvs = Raises ex \<Longrightarrow> is_Exception ex"
  by (induction v and kvs arbitrary: ex and ex rule: json_dumps_json_items.induct)
    (auto simp: bind_Raises not_serializable_def split: if_splits)

lemma calculate_never_raises: "calculate syntax_msg expression \<noteq> Raises ex"
  by (auto simp: calculate_cases dest: py_eval_raises json_dumps_raises(1) split: outcome.splits)

lemma evaluation_error_line:
  "py_eval syntax_msg expression allowed_names [] = Raises ex
    \<Longrightarrow> calculate syntax_msg expression = Returns (error_line (str_exn ex))"
  by (auto simp: calculate_cases dest: py_eval_raises)

lemma parse_1_div_0: "py_parse ''1/0'' = Parsed (BinOp (IntLit 1) Div (IntLit 0))"
  by (simp add: lexer_defs parser_defs)

lemma py_eval_1_div_0:
  "py_eval syntax_msg ''1/0'' allowed_names [] = Raises (PyExn ZeroDivisionError ''division by zero'')"
  by (simp add: py_eval_def parse_1_div_0 binop_def int_binop_def true_divide_def)

lemma parse_2_plus: "py_parse ''2+'' = Syntax_Error"
  by (simp add: lexer_defs parser_defs)

section \<open>Which errors leave \<^verbatim>\<open>calculate\<close>\<close>

lemma handler_is_not_a_catch_all:
  "try_except_Exception (Raises (PyExn SystemExit m)) handler = Raises (PyExn SystemExit m)"
  "try_except_Exception (Raises (PyExn KeyboardInterrupt m)) handler
    = Raises (PyExn KeyboardInterrupt m)"
  by simp_all

text \<open>
  C3 does not hold of the program. The handler of \<^verbatim>\<open>calculate\<close> is \<^verbatim>\<open>except Exception\<close>,
  not a bare \<^verbatim>\<open>except\<close>: an exception whose class derives from \<^verbatim>\<open>BaseException\<close> only
  passes through it (\<open>handler_is_not_a_catch_all\<close>). An expression can raise one without
  any builtin name,
  \<^verbatim>\<open>(0 for _ in ()).throw([c for c in ().__class__.__base__.__subclasses__() if c.__name__ == 'BaseException'][0])\<close>,
  and then nothing is returned: the exception leaves \<^verbatim>\<open>calculate\<close> and the main block.
  Attribute access, comprehensions and generators lie outside the modelled fragment, so
  that run is no theorem of this development.

  What holds is the statement on the fragment: there, whatever \<^verbatim>\<open>eval\<close> raises (a syntax
  error, a name error, a division by zero, a type error) is an instance of
  \<^verbatim>\<open>Exception\<close>, is caught by the handler and is turned into the failure line that carries
  \<^verbatim>\<open>str(e)\<close>. On a string outside the fragment the outcome is \<open>Unmodelled\<close> and nothing
  is said.
\<close>

lemma fragment_errors_are_caught:
  "(\<forall>ex. calculate syntax_msg expression \<noteq> Raises ex)
    \<and> (\<forall>ex. py_eval syntax_msg expression allowed_names [] = Raises ex
          \<longrightarrow> calculate syntax_msg expression = Returns (error_line (str_exn ex)))"
  by (auto simp: calculate_cases dest: py_eval_raises json_dumps_raises(1) split: outcome.splits)

lemma fragment_errors_are_caught_at_division_by_zero:
  \<open>py_eval invalid_syntax ''1/0'' allowed_names []
      = Raises (PyExn ZeroDivisionError ''division by zero'')
    \<and> calculate invalid_syntax ''1/0'' = Returns ''{"status": "error", "message": "division by zero"}''\<close>
  using fragment_errors_are_caught [of invalid_syntax "''1/0''"]
  by (simp add: py_eval_1_div_0 error_line_def json_defs)

section \<open>Division by zero\<close>

text \<open>
  C4. Evaluating \<^verbatim>\<open>1/0\<close> returns the failure line whose message is the interpreter's
  text for the arithmetic error, \<^verbatim>\<open>division by zero\<close>; the exception does not leave
  \<^verbatim>\<open>calculate\<close>, and the process run on that argument prints the line and ends with exit
  status 0. This holds whatever the wording of syntax errors and the program name are.
\<close>

theorem division_by_zero_is_reported:
  \<open>calculate syntax_msg ''1/0'' = Returns ''{"status": "error", "message": "division by zero"}''
    \<and> main syntax_msg [prog, ''1/0'']
        = Returns (''{"status": "error", "message": "division by zero"}'' @ [CHR 0x0A], 0)\<close>
proof -
  have "calculate syntax_msg ''1/0'' = Returns (error_line ''division by zero'')"
    by (simp add: calculate_cases py_eval_1_div_0)
  then show ?thesis
    by (simp add: main_def error_line_def json_defs)
qed

section \<open>Malformed syntax\<close>

text \<open>
  C5. The input \<^verbatim>\<open>2+\<close> is rejected by the parser: \<^verbatim>\<open>eval\<close> raises
  \<^verbatim>\<open>SyntaxError\<close>, and \<^verbatim>\<open>calculate\<close> returns the failure line that carries the text of
  that syntax error, whatever wording \<open>syntax_msg\<close> the interpreter has for it.
\<close>

theorem malformed_syntax_is_reported:
  "py_eval syntax_msg ''2+'' allowed_names [] = Raises (PyExn SyntaxError (syntax_msg ''2+''))
    \<and> calculate syntax_msg ''2+'' = Returns (error_line (syntax_msg ''2+''))"
  by (simp add: calculate_cases py_eval_def parse_2_plus)

section \<open>Results that cannot be serialised\<close>

text \<open>
  C9. When \<^verbatim>\<open>eval\<close> returns a value and \<^verbatim>\<open>json.dumps\<close> of the success dict raises
  (the value is a set or a complex number), the exception is raised inside the same
  \<^verbatim>\<open>try\<close> block, so \<^verbatim>\<open>calculate\<close> returns the failure line with the message of the
  serialisation error, neither the success line nor an exception. The set display
  \<^verbatim>\<open>{1,2}\<close> and the product \<^verbatim>\<open>1j*1j\<close> are two such inputs.
\<close>

theorem unserializable_result_is_failure:
  assumes "py_eval syntax_msg expression allowed_names [] = Returns result"
    and "json_dumps (VDict [(''status'', VStr ''success''), (''result'', result)]) = Raises ex"
  shows "calculate syntax_msg expression = Returns (error_line (str_exn ex))"
proof -
  from assms(2) have "json_dumps result = Raises ex"
    by (simp add: success_doc bind_Raises del: json_dumps.simps)
  with assms(1) show ?thesis
    by (auto simp: calculate_cases dest: json_dumps_raises(1))
qed

lemma set_display_value:
  "py_eval syntax_msg ''{1,2}'' allowed_names [] = Returns (VSet [VInt 1, VInt 2])"
  by (simp add: py_eval_def lexer_defs parser_defs value_defs)

lemma imaginary_product_value:
  "py_eval syntax_msg ''1j*1j'' allowed_names [] = Returns (VComplex (- 1) 0)"
  by (simp add: py_eval_def lexer_defs parser_defs value_defs)

theorem unserializable_result_is_failure_witness:
  \<open>py_eval invalid_syntax ''{1,2}'' allowed_names [] = Returns (VSet [VInt 1, VInt 2])
    \<and> json_dumps (VDict [(''status'', VStr ''success''), (''result'', VSet [VInt 1, VInt 2])])
      = Raises (PyExn TypeError ''Object of type set is not JSON serializable'')
    \<and> calculate invalid_syntax ''{1,2}''
      = Returns ''{"status": "error", "message": "Object of type set is not JSON serializable"}''\<close>
proof -
  have a: "py_eval invalid_syntax ''{1,2}'' allowed_names [] = Returns (VSet [VInt 1, VInt 2])"
    by (rule set_display_value)
  have b: "json_dumps (VDict [(''status'', VStr ''success''), (''result'', VSet [VInt 1, VInt 2])])
      = Raises (PyExn TypeError ''Object of type set is not JSON serializable'')"
    by (simp add: json_defs)
  show ?thesis
    using a b unserializable_result_is_failure [OF a b]
    by (simp add: error_line_def json_defs)
qed

lemma imaginary_product_is_failure:
  \<open>calculate syntax_msg ''1j*1j''
      = Returns ''{"status": "error", "message": "Object of type complex is not JSON serializable"}''\<close>
  by (simp add: calculate_cases imaginary_product_value error_line_def json_defs)

section \<open>The main block\<close>

lemma usage_doc:
  "json_dumps (VDict [(''status'', VStr ''error''), (''message'', VStr usage)])
    = Returns (error_line usage)"
  by (rule error_doc)

lemma main_wrong_count:
  "length argv \<noteq> 2 \<Longrightarrow> main syntax_msg argv = Returns (error_line usage @ [CHR 0x0A], 1)"
  by (simp add: main_def usage_doc del: json_dumps.simps)

lemma main_evaluation_error:
  "length argv = 2 \<Longrightarrow> py_eval syntax_msg (argv ! 1) allowed_names [] = Raises ex
    \<Longrightarrow> main syntax_msg argv = Returns (error_line (str_exn ex) @ [CHR 0x0A], 0)"
  by (simp add: main_def evaluation_error_line)

text \<open>
  C6. \<^verbatim>\<open>sys.argv\<close> holds the program name and the arguments. With no argument or with
  more than one (any length of \<^verbatim>\<open>sys.argv\<close> other than 2) the program prints the usage
  line and exits with status 1, and the evaluator is not run. With one argument the exit
  status is 0 whenever the program prints: in particular when \<^verbatim>\<open>eval\<close> raises, the
  failure line is printed and the status stays 0.
\<close>

theorem exit_status:
  "(length argv \<noteq> 2 \<longrightarrow> main syntax_msg argv = Returns (error_line usage @ [CHR 0x0A], 1))
    \<and> (\<forall>ex. length argv = 2 \<and> py_eval syntax_msg (argv ! 1) allowed_names [] = Raises ex
          \<longrightarrow> main syntax_msg argv = Returns (error_line (str_exn ex) @ [CHR 0x0A], 0))
    \<and> (\<forall>out code. length argv = 2 \<and> main syntax_msg argv = Returns (out, code) \<longrightarrow> code = 0)"
proof (intro conjI allI impI)
  assume "length argv \<noteq> 2"
  then show "main syntax_msg argv = Returns (error_line usage @ [CHR 0x0A], 1)"
    by (rule main_wrong_count)
next
  fix ex
  assume "length argv = 2 \<and> py_eval syntax_msg (argv ! 1) allowed_names [] = Raises ex"
  then show "main syntax_msg argv = Returns (error_line (str_exn ex) @ [CHR 0x0A], 0)"
    by (simp add: main_evaluation_error)
next
  fix out code
  assume "length argv = 2 \<and> main syntax_msg argv = Returns (out, code)"
  then show "code = 0"
    by (auto simp: main_def bind_Returns)
qed

theorem exit_status_witness:
  \<open>length [''skill.py''] \<noteq> 2
    \<and> main invalid_syntax [''skill.py'']
        = Returns (''{"status": "error", "message": "Usage: ./run_skill.sh '' @ quoted ''<expression>''
                    @ [CHR 0x22] @ ''}'' @ [CHR 0x0A], 1)
    \<and> length [''skill.py'', ''1/0''] = 2
    \<and> py_eval invalid_syntax ([''skill.py'', ''1/0''] ! 1) allowed_names []
        = Raises (PyExn ZeroDivisionError ''division by zero'')
    \<and> main invalid_syntax [''skill.py'', ''1/0'']
        = Returns (''{"status": "error", "message": "division by zero"}'' @ [CHR 0x0A], 0)\<close>
  using exit_status [of "[''skill.py'']" invalid_syntax]
    exit_status [of "[''skill.py'', ''1/0'']" invalid_syntax]
  by (simp add: py_eval_1_div_0 error_line_def usage_def quoted_def json_defs)

text \<open>
  C10. The line printed for a wrong argument count and the line printed when
  \<^verbatim>\<open>eval\<close> raises are both failure lines, \<^verbatim>\<open>{"status": "error", "message": ...}\<close> for
  some message; what tells the two runs apart is the exit status, 1 for the first and 0
  for the second.
\<close>

theorem usage_error_has_the_failure_shape:
  "length argv \<noteq> 2 \<and> length argv' = 2
      \<and> py_eval syntax_msg (argv' ! 1) allowed_names [] = Raises ex
    \<longrightarrow> (\<exists>m m'. main syntax_msg argv = Returns (error_line m @ [CHR 0x0A], 1)
                \<and> main syntax_msg argv' = Returns (error_line m' @ [CHR 0x0A], 0))"
  using main_wrong_count main_evaluation_error by blast

theorem usage_error_has_the_failure_shape_witness:
  "length [''skill.py''] \<noteq> 2 \<and> length [''skill.py'', ''1/0''] = 2
    \<and> py_eval invalid_syntax ([''skill.py'', ''1/0''] ! 1) allowed_names []
        = Raises (PyExn ZeroDivisionError ''division by zero'')
    \<and> (\<exists>m m'. main invalid_syntax [''skill.py''] = Returns (error_line m @ [CHR 0x0A], 1)
          \<and> main invalid_syntax [''skill.py'', ''1/0''] = Returns (error_line m' @ [CHR 0x0A], 0))"
  using usage_error_has_the_failure_shape
    [of "[''skill.py'']" "[''skill.py'', ''1/0'']" invalid_syntax "PyExn ZeroDivisionError ''division by zero''"]
  by (simp add: py_eval_1_div_0)

section \<open>One line of output\<close>

lemma hex_char_no_newline: "d < 16 \<Longrightarrow> hex_char d \<noteq> CHR 0x0A"
proof -
  assume "d < 16"
  then have "hex_char d \<in> set ''0123456789abcdef''"
    unfolding hex_char_def by (intro nth_mem) simp
  then show ?thesis by auto
qed

lemma json_escape_no_newline: "CHR 0x0A \<notin> set (json_escape c)"
proof -
  have "(of_char c :: nat) < 256" by simp
  then have "(of_char c :: nat) div 16 < 16" by arith
  moreover have "(of_char c :: nat) mod 16 < 16" by simp
  ultimately show ?thesis
    by (simp add: json_escape_def hex_char_no_newline [THEN not_sym])
qed

lemma json_string_no_newline: "CHR 0x0A \<notin> set (json_string s)"
  by (simp add: json_string_def json_escape_no_newline)

lemma digit_char_no_newline: "d < 10 \<Longrightarrow> digit_char d \<noteq> CHR 0x0A"
proof -
  assume "d < 10"
  then have "digit_char d \<in> set ''0123456789''"
    unfolding digit_char_def by (intro nth_mem) simp
  then show ?thesis by auto
qed

lemma show_nat_no_newline: "CHR 0x0A \<notin> set (show_nat n)"
proof (induction n rule: show_nat.induct)
  case (1 n)
  show ?case
  proof (cases "n < 10")
    case True
    then show ?thesis
      using digit_char_no_newline [of n] by (auto simp: show_nat.simps [of n])
  next
    case False
    with 1 show ?thesis
      using digit_char_no_newline [of "n mod 10"] by (auto simp: show_nat.simps [of n])
  qed
qed

lemma show_int_no_newline: "CHR 0x0A \<notin> set (show_int n)"
  by (simp add: show_int_def show_nat_no_newline)

lemma join_no_newline:
  "CHR 0x0A \<notin> set sep \<Longrightarrow> \<forall>x \<in> set xs. CHR 0x0A \<notin> set x \<Longrightarrow> CHR 0x0A \<notin> set (join sep xs)"
  by (induction sep xs rule: join.induct) auto

lemma json_dumps_no_newline:
  "json_dumps v = Returns r \<Longrightarrow> CHR 0x0A \<notin> set r"
  "json_items kvs = Returns items \<Longrightarrow> \<forall>x \<in> set items. CHR 0x0A \<notin> set x"
proof (induction v and kvs arbitrary: r and items rule: json_dumps_json_items.induct)
  case (4 kvs)
  then show ?case by (auto simp: bind_Returns dest!: join_no_newline [where sep = "'', ''", rotated])
next
  case (8 k v kvs)
  then show ?case by (auto simp: bind_Returns json_string_no_newline)
qed (auto simp: show_int_no_newline show_nat_no_newline json_string_no_newline
      not_serializable_def split: if_splits)

lemma success_line_no_newline: "CHR 0x0A \<notin> set r \<Longrightarrow> CHR 0x0A \<notin> set (success_line r)"
  by (simp add: success_line_def)

lemma error_line_no_newline: "CHR 0x0A \<notin> set (error_line m)"
  by (simp add: error_line_def json_string_no_newline)

lemma calculate_returns:
  "calculate syntax_msg expression = Returns out \<Longrightarrow>
    (\<exists>v r. json_dumps v = Returns r \<and> out = success_line r) \<or> (\<exists>m. out = error_line m)"
  by (auto simp: calculate_cases split: outcome.splits if_splits)

text \<open>
  C7 does not hold of the program: on the argument shown above for C3 the exception
  leaves \<^verbatim>\<open>calculate\<close>, the main block has no handler, and nothing is written to standard
  output. That run lies outside the modelled fragment.

  What holds is the statement on the fragment. Every run that prints at all prints
  exactly one line: the text written to standard output ends with its only newline, and
  the line before it is either the success line \<^verbatim>\<open>{"status": "success", "result": r}\<close> for
  the text \<open>r\<close> that \<^verbatim>\<open>json.dumps\<close> gives some value, or the failure line
  \<^verbatim>\<open>{"status": "error", "message": m}\<close> for some message, and no run in the fragment ends
  in an exception.
\<close>

lemma fragment_one_line_of_two_shapes:
  "(\<forall>ex. main syntax_msg argv \<noteq> Raises ex)
    \<and> (\<forall>out code. main syntax_msg argv = Returns (out, code) \<longrightarrow>
          (\<exists>line. out = line @ [CHR 0x0A] \<and> CHR 0x0A \<notin> set line
            \<and> ((\<exists>v r. json_dumps v = Returns r \<and> line = success_line r)
                \<or> (\<exists>m. line = error_line m))))"
proof (intro conjI allI impI)
  fix ex
  show "main syntax_msg argv \<noteq> Raises ex"
    by (auto simp: main_def usage_doc bind_Raises calculate_never_raises simp del: json_dumps.simps)
next
  fix out code
  assume m: "main syntax_msg argv = Returns (out, code)"
  show "\<exists>line. out = line @ [CHR 0x0A] \<and> CHR 0x0A \<notin> set line
          \<and> ((\<exists>v r. json_dumps v = Returns r \<and> line = success_line r) \<or> (\<exists>m. line = error_line m))"
  proof (cases "length argv = 2")
    case False
    with m have "out = error_line usage @ [CHR 0x0A]"
      by (simp add: main_def usage_doc del: json_dumps.simps)
    then show ?thesis
      using error_line_no_newline by blast
  next
    case True
    with m obtain line where c: "calculate syntax_msg (argv ! 1) = Returns line"
      and o: "out = line @ [CHR 0x0A]"
      by (auto simp: main_def bind_Returns)
    from calculate_returns [OF c]
    have shape: "(\<exists>v r. json_dumps v = Returns r \<and> line = success_line r) \<or> (\<exists>m. line = error_line m)" .
    then have "CHR 0x0A \<notin> set line"
      using json_dumps_no_newline(1) success_line_no_newline error_line_no_newline by blast
    with o shape show ?thesis by blast
  qed
qed

lemma fragment_one_line_at_a_sum:
  \<open>main invalid_syntax [''skill.py'', ''2+2'']
      = Returns (''{"status": "success", "result": 4}'' @ [CHR 0x0A], 0)
    \<and> (\<exists>line. ''{"status": "success", "result": 4}'' @ [CHR 0x0A] = line @ [CHR 0x0A]
          \<and> CHR 0x0A \<notin> set line
          \<and> ((\<exists>v r. json_dumps v = Returns r \<and> line = success_line r)
              \<or> (\<exists>m. line = error_line m)))\<close>
proof -
  have m: "main invalid_syntax [''skill.py'', ''2+2'']
      = Returns (''{\"status\": \"success\", \"result\": 4}'' @ [CHR 0x0A], 0)"
    by (simp add: main_def calculate_cases py_eval_def lexer_defs parser_defs value_defs
        fits_small json_defs success_line_def)
  from fragment_one_line_of_two_shapes [of invalid_syntax "[''skill.py'', ''2+2'']"] m
  show ?thesis by blast
qed

section \<open>Names\<close>

lemma load_name_restricted:
  "x \<noteq> ''__builtins__'' \<Longrightarrow>
    load_name allowed_names [] x = Raises (PyExn NameError (''name '' @ quoted x @ '' is not defined''))"
  by (simp add: load_name_def allowed_names_def)

lemma strict_name_is_not_returned:
  "x \<in> set (strict_names e) \<Longrightarrow> \<forall>v. load_name g l x \<noteq> Returns v \<Longrightarrow> eval_expr g l e \<noteq> Returns v"
  "x \<in> set (strict_names_list es) \<Longrightarrow> \<forall>v. load_name g l x \<noteq> Returns v \<Longrightarrow> eval_exprs g l es \<noteq> Returns vs"
proof (induction g l e and g l es arbitrary: v and vs rule: eval_expr_eval_exprs.induct)
  case (6 g l a op b)
  then show ?case by (auto simp: bind_Returns)
next
  case (9 g l f args)
  then show ?case by (auto simp: bind_Returns not_callable_def)
next
  case (10 g l es)
  then show ?case by (auto simp: bind_Returns)
next
  case (12 g l e es)
  then show ?case by (auto simp: bind_Returns)
qed (auto simp: bind_Returns)

lemma call_is_not_returned: "eval_expr g l (Call f args) \<noteq> Returns v"
  by (auto simp: bind_Returns not_callable_def)

lemma lines_differ: "success_line r \<noteq> error_line m"
  by (simp add: success_line_def error_line_def json_string_def)

lemma parse_import_os:
  "py_parse (''__import__('' @ quoted ''os'' @ '')'') = Parsed (Call (Name ''__import__'') [StrLit ''os''])"
  by (simp add: quoted_def lexer_defs parser_defs)

text \<open>
  C1 does not hold of the program. The code restricts \<^verbatim>\<open>eval\<close> by emptying the builtins
  and by nothing else: it checks no identifier, and attribute access is left as it is. The
  expression
  \<^verbatim>\<open>[c for c in ().__class__.__base__.__subclasses__() if c.__name__ == '_wrap_close'][0].__init__.__globals__['system']('id')\<close>
  reaches \<^verbatim>\<open>os.system\<close> without any builtin name, runs the command, and is reported as
  success. Attribute access and comprehensions lie outside the modelled fragment, so that
  run is no theorem of this development.

  What holds is the statement on the fragment. Take an expression of the fragment in
  which a name other than \<^verbatim>\<open>__builtins__\<close> stands where evaluation cannot skip it, that is,
  anywhere but in the right operand of \<^verbatim>\<open>and\<close> or \<^verbatim>\<open>or\<close>. Then \<^verbatim>\<open>calculate\<close> never
  returns a success line: it returns a failure line (or the evaluation leaves the
  fragment). \<^verbatim>\<open>__import__('os')\<close> is such an expression.
\<close>

lemma fragment_evaluated_name_is_failure:
  assumes "py_parse expression = Parsed e"
    and "x \<in> set (strict_names e)" and "x \<noteq> ''__builtins__''"
  shows "(\<forall>r. calculate syntax_msg expression \<noteq> Returns (success_line r))
    \<and> (calculate syntax_msg expression = Unmodelled
        \<or> (\<exists>m. calculate syntax_msg expression = Returns (error_line m)))
    \<and> (\<forall>f args v. eval_expr allowed_names [] (Call f args) \<noteq> Returns v)"
proof -
  from assms(3) have "\<forall>v. load_name allowed_names [] x \<noteq> Returns v"
    by (simp add: load_name_restricted)
  with assms(2) have "\<forall>v. eval_expr allowed_names [] e \<noteq> Returns v"
    using strict_name_is_not_returned(1) by blast
  with assms(1) have n: "\<forall>v. py_eval syntax_msg expression allowed_names [] \<noteq> Returns v"
    by (simp add: py_eval_def)
  then have c: "calculate syntax_msg expression = Unmodelled
        \<or> (\<exists>m. calculate syntax_msg expression = Returns (error_line m))"
    by (cases "py_eval syntax_msg expression allowed_names []")
      (auto simp: calculate_cases dest: py_eval_raises)
  then have "\<forall>r. calculate syntax_msg expression \<noteq> Returns (success_line r)"
    using lines_differ lines_differ [THEN not_sym] by auto
  with c show ?thesis
    using call_is_not_returned by blast
qed

lemma fragment_import_is_failure:
  \<open>py_parse (''__import__('' @ quoted ''os'' @ '')'') = Parsed (Call (Name ''__import__'') [StrLit ''os''])
    \<and> ''__import__'' \<in> set (strict_names (Call (Name ''__import__'') [StrLit ''os'']))
    \<and> ''__import__'' \<noteq> ''__builtins__''
    \<and> calculate invalid_syntax (''__import__('' @ quoted ''os'' @ '')'')
        = Returns (''{"status": "error", "message": "name '' @ quoted ''__import__''
                      @ '' is not defined"}'')
    \<and> (\<forall>r. calculate invalid_syntax (''__import__('' @ quoted ''os'' @ '')'') \<noteq> Returns (success_line r))\<close>
proof -
  note p = parse_import_os
  have m: "''__import__'' \<in> set (strict_names (Call (Name ''__import__'') [StrLit ''os'']))"
    by simp
  have ne: "''__import__'' \<noteq> ''__builtins__''"
    by simp
  have c: "calculate invalid_syntax (''__import__('' @ quoted ''os'' @ '')'')
        = Returns (''{\"status\": \"error\", \"message\": \"name '' @ quoted ''__import__''
                      @ '' is not defined\"}'')"
    by (simp add: calculate_cases py_eval_def parse_import_os [unfolded quoted_def, simplified]
        load_name_restricted error_line_def json_defs quoted_def)
  from fragment_evaluated_name_is_failure [OF p m ne, of invalid_syntax]
  have "\<forall>r. calculate invalid_syntax (''__import__('' @ quoted ''os'' @ '')'') \<noteq> Returns (success_line r)"
    by blast
  with p m ne c show ?thesis by blast
qed

text \<open>
  That no identifier is checked also shows inside the fragment, on harmless inputs. The
  name \<^verbatim>\<open>__builtins__\<close> is defined: it is the key the program itself puts into the globals,
  and it evaluates to the empty dict, which is serialised as a success. A name in the
  right operand of \<^verbatim>\<open>or\<close> is not evaluated when the left operand is true.
\<close>

lemma builtins_name_is_success:
  \<open>py_parse ''__builtins__'' = Parsed (Name ''__builtins__'')
    \<and> ''__builtins__'' \<in> set (names (Name ''__builtins__''))
    \<and> calculate invalid_syntax ''__builtins__'' = Returns ''{"status": "success", "result": {}}''
    \<and> py_parse ''1 or x'' = Parsed (BoolOp Or (IntLit 1) (Name ''x''))
    \<and> ''x'' \<in> set (names (BoolOp Or (IntLit 1) (Name ''x'')))
    \<and> calculate invalid_syntax ''1 or x'' = Returns ''{"status": "success", "result": 1}''\<close>
proof -
  have p1: "py_parse ''__builtins__'' = Parsed (Name ''__builtins__'')"
    by (simp add: lexer_defs parser_defs)
  have p2: "py_parse ''1 or x'' = Parsed (BoolOp Or (IntLit 1) (Name ''x''))"
    by (simp add: lexer_defs parser_defs)
  have c1: "calculate invalid_syntax ''__builtins__'' = Returns ''{\"status\": \"success\", \"result\": {}}''"
    by (simp add: calculate_cases py_eval_def p1 value_defs success_line_def)
  have c2: "calculate invalid_syntax ''1 or x'' = Returns ''{\"status\": \"success\", \"result\": 1}''"
    by (simp add: calculate_cases py_eval_def p2 fits_small json_defs success_line_def)
  from p1 p2 c1 c2 show ?thesis by simp
qed

section \<open>Arithmetic\<close>

lemma fits_minus: "fits (- n) = fits n"
  by (simp add: fits_def)

lemma arith_value_eval:
  "arith_value e = Some v \<Longrightarrow> division_free e \<Longrightarrow> within_limits e
    \<Longrightarrow> eval_expr g l e = Returns (VInt v)"
proof (induction e arbitrary: v rule: arith_value.induct)
  case (1 k)
  then show ?case by simp
next
  case (2 op e)
  then obtain x where x: "arith_value e = Some x"
    by (auto split: option.splits)
  with 2 have "eval_expr g l e = Returns (VInt x)" by simp
  with 2 x show ?case
    by (cases op) (auto simp: int_result_def value_fits_def fits_minus)
next
  case (3 a op b)
  then obtain x y where xy: "arith_value a = Some x" "arith_value b = Some y"
    by (auto split: option.splits)
  with 3 have "eval_expr g l a = Returns (VInt x)" "eval_expr g l b = Returns (VInt y)"
    by simp_all
  with 3 xy show ?case
    by (cases op) (auto simp: binop_def int_binop_def int_result_def value_fits_def split: if_splits)
qed simp_all

lemma root_fits: "arith_value e = Some v \<Longrightarrow> within_limits e \<Longrightarrow> fits v"
  by (cases e) (auto simp: value_fits_def)

lemma exact_quotient:
  assumes "y \<noteq> 0" "y dvd x" "\<bar>x div y\<bar> < 2 ^ 53"
  shows "true_divide x y = Returns (VFloat ((x < 0) \<noteq> (y < 0)) (nat \<bar>x div y\<bar>))"
proof -
  from assms(2) have x: "x = (x div y) * y" by simp
  have "\<bar>x\<bar> = \<bar>x div y\<bar> * \<bar>y\<bar>"
    by (subst x) (simp only: abs_mult)
  also have "\<dots> < 2 ^ 53 * \<bar>y\<bar>"
    using assms(1,3) by simp
  also have "\<dots> \<le> 2 ^ 1024 * \<bar>y\<bar>"
    by (intro mult_right_mono power_increasing) simp_all
  finally have "\<not> 2 ^ 1024 * \<bar>y\<bar> \<le> \<bar>x\<bar>" by simp
  with assms show ?thesis
    by (simp add: true_divide_def exact_float_def)
qed

lemma fits_medium: "\<bar>n\<bar> < 10 ^ 500 \<Longrightarrow> fits n"
proof -
  assume "\<bar>n\<bar> < 10 ^ 500"
  moreover have "(10::int) ^ 500 \<le> 10 ^ max_str_digits"
    by (rule power_increasing) (simp_all add: max_str_digits_def)
  ultimately show ?thesis by (simp add: fits_def)
qed

lemma parse_overflow:
  "py_parse ''10**400/1'' = Parsed (BinOp (BinOp (IntLit 10) Power (IntLit 400)) Div (IntLit 1))"
  by (simp add: lexer_defs parser_defs)

lemma parse_2_plus_2: "py_parse ''2+2'' = Parsed (BinOp (IntLit 2) Add (IntLit 2))"
  by (simp add: lexer_defs parser_defs)

lemma parse_10_div_2: "py_parse ''10/2'' = Parsed (BinOp (IntLit 10) Div (IntLit 2))"
  by (simp add: lexer_defs parser_defs)

subsection \<open>An expression written out with brackets is read back\<close>

text \<open>The decimal digits of a number, as \<^verbatim>\<open>json.dumps\<close> writes them, are read back by
  the tokenizer as that number.\<close>

lemma digit_char_is_digit: "d < 10 \<Longrightarrow> is_digit (digit_char d)"
proof -
  assume "d < 10"
  then have "digit_char d \<in> set ''0123456789''"
    unfolding digit_char_def by (intro nth_mem) simp
  then show ?thesis by (simp add: is_digit_def)
qed

lemma digit_val_digit_char: "d < 10 \<Longrightarrow> digit_val (digit_char d) = d"
proof -
  assume "d < 10"
  then consider "d = 0" | "d = 1" | "d = 2" | "d = 3" | "d = 4" | "d = 5" | "d = 6" | "d = 7"
    | "d = 8" | "d = 9" by force
  then show ?thesis by cases (simp_all add: digit_val_def digit_char_def)
qed

lemma digit_char_zero: "d < 10 \<Longrightarrow> digit_char d = CHR ''0'' \<longleftrightarrow> d = 0"
proof -
  assume "d < 10"
  then consider "d = 0" | "d = 1" | "d = 2" | "d = 3" | "d = 4" | "d = 5" | "d = 6" | "d = 7"
    | "d = 8" | "d = 9" by force
  then show ?thesis by cases (simp_all add: digit_char_def)
qed

lemma show_nat_digits: "list_all is_digit (show_nat n)"
proof (induction n rule: show_nat.induct)
  case (1 n)
  show ?case
  proof (cases "n < 10")
    case True
    then show ?thesis by (simp add: show_nat.simps [of n] digit_char_is_digit)
  next
    case False
    with 1 show ?thesis by (simp add: show_nat.simps [of n] digit_char_is_digit)
  qed
qed

lemma show_nat_not_empty: "show_nat n \<noteq> []"
  by (subst show_nat.simps) simp

lemma nat_of_digits_snoc: "nat_of_digits (ds @ [c]) = 10 * nat_of_digits ds + digit_val c"
  by (simp add: nat_of_digits_def)

lemma nat_of_digits_show_nat: "nat_of_digits (show_nat n) = n"
proof (induction n rule: show_nat.induct)
  case (1 n)
  show ?case
  proof (cases "n < 10")
    case True
    then show ?thesis
      by (simp add: show_nat.simps [of n] nat_of_digits_def digit_val_digit_char)
  next
    case False
    with 1 show ?thesis
      by (simp add: show_nat.simps [of n] nat_of_digits_snoc digit_val_digit_char)
  qed
qed

lemma show_nat_leading_zero: "hd (show_nat n) = CHR ''0'' \<Longrightarrow> n = 0"
proof (induction n rule: show_nat.induct)
  case (1 n)
  show ?case
  proof (cases "n < 10")
    case True
    with 1(2) show ?thesis by (simp add: show_nat.simps [of n] digit_char_zero)
  next
    case False
    with 1(2) have "hd (show_nat (n div 10)) = CHR ''0''"
      by (simp add: show_nat.simps [of n] show_nat_not_empty)
    with 1(1) False have "n div 10 = 0" by simp
    with False show ?thesis by simp
  qed
qed

lemma show_nat_length: "n < 10 ^ k \<Longrightarrow> 0 < k \<Longrightarrow> length (show_nat n) \<le> k"
proof (induction n arbitrary: k rule: show_nat.induct)
  case (1 n)
  show ?case
  proof (cases "n < 10")
    case True
    with 1(3) show ?thesis by (simp add: show_nat.simps [of n])
  next
    case False
    from False 1(2) have "k \<noteq> 1" by auto
    with 1(3) obtain j where j: "k = Suc j" "0 < j" by (cases k) auto
    with 1(2) have "n div 10 < 10 ^ j"
      by (simp add: less_mult_imp_div_less)
    with 1(1) False j have "length (show_nat (n div 10)) \<le> j" by simp
    with False j show ?thesis by (simp add: show_nat.simps [of n])
  qed
qed

lemma fits_length: "fits (int k) \<Longrightarrow> length (show_nat k) \<le> max_str_digits"
proof -
  assume "fits (int k)"
  then have "int k < 10 ^ max_str_digits" by (simp add: fits_def)
  then have "k < 10 ^ max_str_digits"
    by (metis of_nat_less_iff of_nat_numeral of_nat_power)
  then show ?thesis
    by (rule show_nat_length) (simp add: max_str_digits_def)
qed

lemma takeWhile_all: "list_all P xs \<Longrightarrow> (ys = [] \<or> \<not> P (hd ys)) \<Longrightarrow> takeWhile P (xs @ ys) = xs"
  by (induction xs) (auto simp: takeWhile_eq_Nil_iff neq_Nil_conv)

lemma dropWhile_all: "list_all P xs \<Longrightarrow> (ys = [] \<or> \<not> P (hd ys)) \<Longrightarrow> dropWhile P (xs @ ys) = ys"
  by (induction xs) (auto simp: dropWhile_eq_self_iff neq_Nil_conv)

lemma tokenize_number:
  assumes "fits (int k)" and "ends_number s"
  shows "tokenize (show_nat k @ s) = cons_token (TInt k) (tokenize s)"
proof -
  obtain c cs where ccs: "show_nat k = c # cs"
    using show_nat_not_empty by (cases "show_nat k") auto
  with show_nat_digits [of k] have d: "is_digit c" "list_all is_digit cs" by simp_all
  from assms(2) have e: "s = [] \<or> \<not> is_digit (hd s)"
    by (auto simp: ends_number_def split: list.splits)
  have tw: "takeWhile is_digit (cs @ s) = cs" and dw: "dropWhile is_digit (cs @ s) = s"
    using d(2) e by (simp_all add: takeWhile_all dropWhile_all)
  have sp: "c \<noteq> CHR '' ''" using d(1) by (auto simp: is_digit_def)
  have z: "\<not> (c = CHR ''0'' \<and> 1 < length (c # cs))"
  proof
    assume a: "c = CHR ''0'' \<and> 1 < length (c # cs)"
    with ccs have "hd (show_nat k) = CHR ''0''" by simp
    then have "k = 0" by (rule show_nat_leading_zero)
    then have "show_nat k = ''0''" by (simp add: show_nat.simps [of 0] digit_char_def)
    with ccs a show False by simp
  qed
  have len: "\<not> max_str_digits < length (c # cs)"
    using fits_length [OF assms(1)] ccs by simp
  have n: "nat_of_digits (c # cs) = k"
    using nat_of_digits_show_nat [of k] ccs by simp
  have j: "\<not> is_alpha r \<Longrightarrow> r \<noteq> CHR ''j'' \<and> r \<noteq> CHR ''J''" for r
    by (auto simp: is_alpha_def)
  have "tokenize (c # cs @ s) = cons_token (TInt (nat_of_digits (c # cs))) (tokenize s)"
    using sp d(1) z len assms(2)
    by (subst tokenize.simps(2))
      (auto simp: Let_def tw dw ends_number_def dest: j split: list.splits
        simp del: tokenize.simps(2) takeWhile_append dropWhile_append)
  with ccs n show ?thesis by simp
qed

text \<open>The tokenizer reads the spelling of an expression as its tokens.\<close>

lemma cons_tokens_simps [simp]:
  "cons_tokens [] r = r"
  "cons_tokens (t # ts) r = cons_token t (cons_tokens ts r)"
  "cons_tokens (ts @ us) r = cons_tokens ts (cons_tokens us r)"
  by (simp_all add: cons_tokens_def)

lemma ends_expr_number: "ends_expr s \<Longrightarrow> ends_number s"
  by (auto simp: ends_expr_def ends_number_def is_digit_def is_alpha_def is_quote_def
      split: list.splits)

lemma ends_expr_simps [simp]:
  "ends_expr (CHR '')'' # s)" "ends_expr (op_text op @ s)"
  by (cases op; simp add: ends_expr_def)+

lemma tokenize_bracket:
  "tokenize (CHR ''('' # s) = cons_token TLPar (tokenize s)"
  "tokenize (CHR '')'' # s) = cons_token TRPar (tokenize s)"
  by (simp_all add: is_digit_def is_alpha_def is_quote_def)

lemma tokenize_sign: "tokenize (sign_text op @ s) = cons_token (sign_token op) (tokenize s)"
  by (cases op) (simp_all add: is_digit_def is_alpha_def is_quote_def)

lemma tokenize_operator:
  "starts_operand s \<Longrightarrow> tokenize (op_text op @ s) = cons_token (op_token op) (tokenize s)"
  by (cases op; cases s)
    (auto simp: starts_operand_def is_digit_def is_alpha_def is_quote_def
      simp del: tokenize.simps(2) simp add: tokenize.simps(2) [of "CHR ''+''"]
        tokenize.simps(2) [of "CHR ''-''"] tokenize.simps(2) [of "CHR ''*''"]
        tokenize.simps(2) [of "CHR ''/''"])

lemma starts_operand_source: "arithmetic e \<Longrightarrow> starts_operand (source_of True e @ s)"
proof (cases e)
  case (IntLit k)
  obtain c cs where "show_nat k = c # cs"
    using show_nat_not_empty by (cases "show_nat k") auto
  with show_nat_digits [of k] IntLit show ?thesis
    by (simp add: starts_operand_def)
qed (simp_all add: starts_operand_def bracketed_def)

lemma tokenize_source:
  "arithmetic e \<Longrightarrow> ends_expr s
    \<Longrightarrow> tokenize (source_of p e @ s) = cons_tokens (tokens_of p e) (tokenize s)"
proof (induction e arbitrary: p s)
  case (IntLit k)
  then show ?case by (simp add: tokenize_number ends_expr_number)
next
  case (UnaryOp op e)
  then have "tokenize (source_of True e @ t) = cons_tokens (tokens_of True e) (tokenize t)"
    if "ends_expr t" for t using that by simp
  with UnaryOp.prems show ?case
    by (cases p)
      (simp_all add: bracketed_def bracketed_tokens_def tokenize_bracket tokenize_sign
        del: tokenize.simps(2))
next
  case (BinOp a op b)
  then have a: "tokenize (source_of True a @ t) = cons_tokens (tokens_of True a) (tokenize t)"
    and b: "tokenize (source_of True b @ t) = cons_tokens (tokens_of True b) (tokenize t)"
    if "ends_expr t" for t using that by simp_all
  from BinOp.prems have s: "starts_operand (source_of True b @ t)" for t
    by (simp add: starts_operand_source)
  from BinOp.prems(2) show ?case
    by (cases p)
      (simp_all add: bracketed_def bracketed_tokens_def tokenize_bracket a b s tokenize_operator
        del: tokenize.simps(2))
qed simp_all

text \<open>One step of each level of the parser.\<close>

lemma chain_stop:
  "ts = [] \<or> ops (hd ts) = None \<Longrightarrow> chain k ops operand l ts = Parsed (l, ts)"
  by (cases k; cases ts) auto

lemma level_pass:
  "operand ts = Parsed (l, r) \<Longrightarrow> r = [] \<or> ops (hd r) = None
    \<Longrightarrow> binary_level k ops operand ts = Parsed (l, r)"
  by (simp add: binary_level_def chain_stop)

lemma level_one:
  "operand ts = Parsed (l, t # r) \<Longrightarrow> ops t = Some mk \<Longrightarrow> operand r = Parsed (e, r')
    \<Longrightarrow> r' = [] \<or> ops (hd r') = None
    \<Longrightarrow> binary_level (Suc k) ops operand ts = Parsed (mk l e, r')"
  by (simp add: binary_level_def chain_stop)

lemma stop_ops:
  assumes "stop ts"
  shows "ts = [] \<or> term_ops (hd ts) = None" "ts = [] \<or> arith_ops (hd ts) = None"
    "ts = [] \<or> and_ops (hd ts) = None" "ts = [] \<or> or_ops (hd ts) = None"
    "ts = [] \<or> hd ts \<noteq> TDblStar" "ts = [] \<or> hd ts \<noteq> TLPar"
  using assms
  by (auto simp: stop_def term_ops_def arith_ops_def and_ops_def or_ops_def split: list.splits)

lemma primary_literal:
  "rest = [] \<or> hd rest \<noteq> TLPar
    \<Longrightarrow> p_primary (Suc n) sub (TInt k # rest) = Parsed (IntLit k, rest)"
  by (cases rest) (auto simp: p_primary_def p_atom_def)

lemma primary_bracket:
  "sub (ts @ TRPar # rest) = Parsed (e, TRPar # rest) \<Longrightarrow> rest = [] \<or> hd rest \<noteq> TLPar
    \<Longrightarrow> p_primary (Suc n) sub (TLPar # ts @ TRPar # rest) = Parsed (e, rest)"
  by (cases rest) (auto simp: p_primary_def p_atom_def)

lemma factor_operand:
  "primary (t # ts) = Parsed (e, rest) \<Longrightarrow> t \<noteq> TPlus \<Longrightarrow> t \<noteq> TMinus
    \<Longrightarrow> rest = [] \<or> hd rest \<noteq> TDblStar
    \<Longrightarrow> p_factor (Suc j) primary (t # ts) = Parsed (e, rest)"
  by (cases rest) auto

lemma factor_power:
  "primary (t # ts) = Parsed (a, TDblStar # r) \<Longrightarrow> t \<noteq> TPlus \<Longrightarrow> t \<noteq> TMinus
    \<Longrightarrow> p_factor j primary r = Parsed (b, rest)
    \<Longrightarrow> p_factor (Suc j) primary (t # ts) = Parsed (BinOp a Power b, rest)"
  by auto

lemma factor_sign:
  "p_factor j primary r = Parsed (a, rest)
    \<Longrightarrow> p_factor (Suc j) primary (sign_token op # r) = Parsed (UnaryOp op a, rest)"
  by (cases op) auto

lemma operand_tokens:
  "arithmetic e \<Longrightarrow>
    (\<exists>k. e = IntLit k \<and> tokens_of True e = [TInt k])
    \<or> tokens_of True e = TLPar # tokens_of False e @ [TRPar]"
  by (cases e) (auto simp: bracketed_tokens_def)

lemma factor_up:
  "p_factor k (p_primary k sub) ts = Parsed (x, r) \<Longrightarrow> stop r
    \<Longrightarrow> p_term k sub ts = Parsed (x, r)"
  unfolding p_term_def by (rule level_pass) (simp_all add: stop_ops)

lemma term_up:
  assumes "p_term k sub ts = Parsed (x, r)" and "stop r"
  shows "p_arith k sub ts = Parsed (x, r)"
  unfolding p_arith_def using assms by (intro level_pass) (simp_all add: stop_ops)

lemma arith_up:
  assumes "p_arith k sub ts = Parsed (x, r)" and "stop r"
  shows "p_or k sub ts = Parsed (x, r)"
proof -
  from assms have "p_and k sub ts = Parsed (x, r)"
    unfolding p_and_def by (intro level_pass) (simp_all add: stop_ops)
  with assms(2) show ?thesis
    unfolding p_or_def by (intro level_pass) (simp_all add: stop_ops)
qed

lemma operand_primary:
  assumes "arithmetic x"
    and "\<And>r. stop r \<Longrightarrow> sub (tokens_of False x @ r) = Parsed (x, r)"
    and "rest = [] \<or> hd rest \<noteq> TLPar"
  shows "p_primary (Suc n) sub (tokens_of True x @ rest) = Parsed (x, rest)"
proof -
  from operand_tokens [OF assms(1)] show ?thesis
  proof
    assume "\<exists>k. x = IntLit k \<and> tokens_of True x = [TInt k]"
    with assms(3) show ?thesis by (auto simp: primary_literal)
  next
    assume t: "tokens_of True x = TLPar # tokens_of False x @ [TRPar]"
    have "sub (tokens_of False x @ TRPar # rest) = Parsed (x, TRPar # rest)"
      by (rule assms(2)) (simp add: stop_def)
    with assms(3) t show ?thesis by (simp add: primary_bracket)
  qed
qed

lemma operand_factor:
  assumes "arithmetic x"
    and "\<And>r. stop r \<Longrightarrow> sub (tokens_of False x @ r) = Parsed (x, r)"
    and "rest = [] \<or> hd rest \<noteq> TLPar" and "rest = [] \<or> hd rest \<noteq> TDblStar"
  shows "p_factor (Suc j) (p_primary (Suc n) sub) (tokens_of True x @ rest) = Parsed (x, rest)"
proof -
  from operand_tokens [OF assms(1)]
  obtain t ts where t: "tokens_of True x = t # ts" "t \<noteq> TPlus" "t \<noteq> TMinus" by auto
  from operand_primary [OF assms(1,2,3)]
  have "p_primary (Suc n) sub (t # ts @ rest) = Parsed (x, rest)" by (simp add: t(1))
  then have "p_factor (Suc j) (p_primary (Suc n) sub) (t # ts @ rest) = Parsed (x, rest)"
    using t(2,3) assms(4) by (rule factor_operand)
  then show ?thesis by (simp add: t(1))
qed

text \<open>The parser reads the tokens of an expression as the expression, with a budget above
  the nesting of its operators.\<close>

lemma parse_tokens:
  "arithmetic e \<Longrightarrow> depth e < n \<Longrightarrow> stop rest
    \<Longrightarrow> p_expr n (tokens_of False e @ rest) = Parsed (e, rest)"
proof (induction e arbitrary: n rest)
  case (IntLit k)
  then obtain m where n: "n = Suc m" by (cases n) auto
  have "p_primary (Suc m) (p_expr m) (TInt k # rest) = Parsed (IntLit k, rest)"
    using IntLit.prems(3) by (intro primary_literal) (simp add: stop_ops)
  then have "p_factor (Suc m) (p_primary (Suc m) (p_expr m)) (TInt k # rest) = Parsed (IntLit k, rest)"
    using IntLit.prems(3) by (intro factor_operand) (simp_all add: stop_ops)
  with IntLit.prems(3) show ?case
    by (simp add: n factor_up term_up arith_up)
next
  case (UnaryOp op a)
  then obtain m where n: "n = Suc m" by (cases n) auto
  with UnaryOp.prems obtain j where m: "m = Suc j" by (cases m) auto
  have sub: "p_expr m (tokens_of False a @ r) = Parsed (a, r)" if "stop r" for r
    using UnaryOp.IH [of m r] UnaryOp.prems that n by simp
  have "p_factor (Suc j) (p_primary (Suc m) (p_expr m)) (tokens_of True a @ rest) = Parsed (a, rest)"
    using UnaryOp.prems sub by (intro operand_factor) (simp_all add: stop_ops)
  then have "p_factor (Suc m) (p_primary (Suc m) (p_expr m)) (sign_token op # tokens_of True a @ rest)
      = Parsed (UnaryOp op a, rest)"
    unfolding m [symmetric] by (rule factor_sign)
  with UnaryOp.prems(3) show ?case
    by (simp add: n bracketed_tokens_def factor_up term_up arith_up)
next
  case (BinOp a op b)
  then obtain m where n: "n = Suc m" by (cases n) auto
  with BinOp.prems obtain j where m: "m = Suc j" by (cases m) auto
  let ?prim = "p_primary (Suc m) (p_expr m)"
  let ?F = "p_factor (Suc m) ?prim"
  let ?more = "op_token op # tokens_of True b @ rest"
  have nl: "op_token op \<noteq> TLPar" by (cases op) simp_all
  have sub_a: "p_expr m (tokens_of False a @ r) = Parsed (a, r)" if "stop r" for r
    using BinOp.IH(1) [of m r] BinOp.prems that n by simp
  have sub_b: "p_expr m (tokens_of False b @ r) = Parsed (b, r)" if "stop r" for r
    using BinOp.IH(2) [of m r] BinOp.prems that n by simp
  have pa: "?prim (tokens_of True a @ ?more) = Parsed (a, ?more)"
    using BinOp.prems sub_a nl by (intro operand_primary) simp_all
  have fb: "p_factor (Suc i) ?prim (tokens_of True b @ rest) = Parsed (b, rest)" for i
    using BinOp.prems sub_b by (intro operand_factor) (simp_all add: stop_ops)
  from operand_tokens [of a] BinOp.prems(1)
  obtain t ts where t: "tokens_of True a = t # ts" "t \<noteq> TPlus" "t \<noteq> TMinus" by auto
  have "p_or (Suc m) (p_expr m) (tokens_of True a @ ?more) = Parsed (BinOp a op b, rest)"
  proof (cases "op = Power")
    case True
    from pa have "?prim (t # ts @ TDblStar # tokens_of True b @ rest)
        = Parsed (a, TDblStar # tokens_of True b @ rest)"
      by (simp add: t(1) True)
    then have "?F (t # ts @ TDblStar # tokens_of True b @ rest) = Parsed (BinOp a Power b, rest)"
      using t(2,3) fb [of j] unfolding m [symmetric] by (rule factor_power)
    with BinOp.prems(3) show ?thesis
      by (simp add: t(1) True factor_up term_up arith_up)
  next
    case False
    from pa have "?prim (t # ts @ ?more) = Parsed (a, ?more)" by (simp add: t(1))
    moreover from False have "op_token op \<noteq> TDblStar" by (cases op) simp_all
    ultimately have "?F (t # ts @ ?more) = Parsed (a, ?more)"
      using t(2,3) by (intro factor_operand) simp_all
    then have fa: "?F (tokens_of True a @ ?more) = Parsed (a, ?more)" by (simp add: t(1))
    show ?thesis
    proof (cases "op = Mult \<or> op = Div")
      case True
      then have o: "term_ops (op_token op) = Some (\<lambda>l r. BinOp l op r)"
        by (auto simp: term_ops_def)
      have "p_term (Suc m) (p_expr m) (tokens_of True a @ ?more) = Parsed (BinOp a op b, rest)"
        unfolding p_term_def
        using BinOp.prems(3)
        by (intro level_one [where operand = ?F and ops = term_ops
              and mk = "\<lambda>l r. BinOp l op r", OF fa o fb [of m]]) (simp add: stop_ops)
      with BinOp.prems(3) show ?thesis by (simp add: term_up arith_up)
    next
      case no: False
      with False have o: "arith_ops (op_token op) = Some (\<lambda>l r. BinOp l op r)"
        "term_ops (op_token op) = None"
        by (cases op; simp add: arith_ops_def term_ops_def)+
      have ta: "p_term (Suc m) (p_expr m) (tokens_of True a @ ?more) = Parsed (a, ?more)"
        unfolding p_term_def using fa by (rule level_pass) (simp add: o)
      have tb: "p_term (Suc m) (p_expr m) (tokens_of True b @ rest) = Parsed (b, rest)"
        using fb [of m] BinOp.prems(3) by (rule factor_up)
      have "p_arith (Suc m) (p_expr m) (tokens_of True a @ ?more) = Parsed (BinOp a op b, rest)"
        unfolding p_arith_def
        using BinOp.prems(3)
        by (intro level_one [where operand = "p_term (Suc m) (p_expr m)" and ops = arith_ops
              and mk = "\<lambda>l r. BinOp l op r", OF ta o(1) tb]) (simp add: stop_ops)
      with BinOp.prems(3) show ?thesis by (simp add: arith_up)
    qed
  qed
  then show ?case by (simp add: n bracketed_tokens_def)
qed simp_all

lemma arith_value_arithmetic: "arith_value e = Some v \<Longrightarrow> within_limits e \<Longrightarrow> arithmetic e"
  by (induction e arbitrary: v rule: arith_value.induct)
    (auto simp: value_fits_def split: option.splits)

lemma cons_tokens_Parsed: "cons_tokens ts (Parsed us) = Parsed (ts @ us)"
  by (induction ts) simp_all

lemma parse_source:
  assumes "arithmetic e" and "depth e < parse_budget"
  shows "py_parse (source_of False e) = Parsed e"
proof -
  have "tokenize (source_of False e @ []) = cons_tokens (tokens_of False e) (tokenize [])"
    using assms(1) by (rule tokenize_source) (simp add: ends_expr_def)
  then have "tokenize (source_of False e) = Parsed (tokens_of False e)"
    by (simp add: cons_tokens_Parsed)
  moreover have "p_expr parse_budget (tokens_of False e @ []) = Parsed (e, [])"
    using assms by (rule parse_tokens) (simp add: stop_def)
  ultimately show ?thesis by (simp add: py_parse_def)
qed

text \<open>So every expression with an integer value, no division and all values within
  \<open>max_str_digits\<close> digits has an input on which \<^verbatim>\<open>calculate\<close> reports that value, when its
  operators are nested less deeply than the budget of the model's parser.\<close>

lemma source_value:
  assumes "arith_value e = Some v" and "within_limits e" and "division_free e"
    and "depth e < parse_budget"
  shows "calculate syntax_msg (source_of False e) = Returns (success_line (show_int v))"
proof -
  from assms(1,2) have "arithmetic e" by (rule arith_value_arithmetic)
  then have "py_parse (source_of False e) = Parsed e" using assms(4) by (rule parse_source)
  moreover have "eval_expr allowed_names [] e = Returns (VInt v)"
    using assms(1,3,2) by (rule arith_value_eval)
  moreover from assms(1,2) have "fits v" by (rule root_fits)
  ultimately show ?thesis by (simp add: calculate_cases py_eval_def)
qed

text \<open>
  C2, as the code has it. Let the parser read the input as an expression built from
  integer literals, signs and \<^verbatim>\<open>+ - * / **\<close> whose mathematical value is the integer \<open>v\<close>,
  every value that arises having at most 4300 digits. If the expression has no division,
  \<^verbatim>\<open>calculate\<close> returns the success line with \<open>v\<close> in decimal. If it is a quotient of two
  such expressions and \<open>v\<close> is below \<open>2 ^ 53\<close> in magnitude, \<^verbatim>\<open>calculate\<close> returns the
  success line with \<open>v\<close> written as a float (\<^verbatim>\<open>5.0\<close> for \<^verbatim>\<open>10/2\<close>; the zero is negative
  when 0 is divided by a negative number). The first hypothesis can be met for every such
  expression whose operators are nested less deeply than the parser's budget: written
  out with brackets, it is read back as itself (\<open>parse_source\<close>).
\<close>

theorem integer_arithmetic_is_exact:
  assumes "py_parse expression = Parsed e" and "arith_value e = Some v" and "within_limits e"
  shows "(division_free e \<longrightarrow>
            calculate syntax_msg expression = Returns (success_line (show_int v)))
    \<and> (\<forall>a b x y. e = BinOp a Div b \<and> division_free a \<and> division_free b
            \<and> arith_value a = Some x \<and> arith_value b = Some y \<and> \<bar>v\<bar> < 2 ^ 53 \<longrightarrow>
            calculate syntax_msg expression
              = Returns (success_line ((if (x < 0) \<noteq> (y < 0) then ''-'' else [])
                                        @ show_nat (nat \<bar>v\<bar>) @ ''.0'')))"
proof (intro conjI allI impI)
  assume "division_free e"
  with assms have "py_eval syntax_msg expression allowed_names [] = Returns (VInt v)"
    by (simp add: py_eval_def arith_value_eval)
  moreover from assms(2,3) have "fits v" by (rule root_fits)
  ultimately show "calculate syntax_msg expression = Returns (success_line (show_int v))"
    by (simp add: calculate_cases)
next
  fix a b x y
  assume h: "e = BinOp a Div b \<and> division_free a \<and> division_free b
            \<and> arith_value a = Some x \<and> arith_value b = Some y \<and> \<bar>v\<bar> < 2 ^ 53"
  with assms have q: "y \<noteq> 0" "y dvd x" "v = x div y"
    by (auto split: if_splits)
  from h assms have "eval_expr allowed_names [] a = Returns (VInt x)"
    "eval_expr allowed_names [] b = Returns (VInt y)"
    by (auto simp: arith_value_eval)
  with h have "eval_expr allowed_names [] e = true_divide x y"
    by (simp add: binop_def int_binop_def)
  also from q h have "\<dots> = Returns (VFloat ((x < 0) \<noteq> (y < 0)) (nat \<bar>v\<bar>))"
    by (simp add: exact_quotient)
  finally have "py_eval syntax_msg expression allowed_names []
      = Returns (VFloat ((x < 0) \<noteq> (y < 0)) (nat \<bar>v\<bar>))"
    using assms(1) by (simp add: py_eval_def)
  with h show "calculate syntax_msg expression
              = Returns (success_line ((if (x < 0) \<noteq> (y < 0) then ''-'' else [])
                                        @ show_nat (nat \<bar>v\<bar>) @ ''.0''))"
    by (simp add: calculate_cases exact_float_def)
qed

theorem integer_arithmetic_is_exact_witness:
  \<open>py_parse ''2+2'' = Parsed (BinOp (IntLit 2) Add (IntLit 2))
    \<and> arith_value (BinOp (IntLit 2) Add (IntLit 2)) = Some 4
    \<and> within_limits (BinOp (IntLit 2) Add (IntLit 2))
    \<and> division_free (BinOp (IntLit 2) Add (IntLit 2))
    \<and> calculate invalid_syntax ''2+2'' = Returns ''{"status": "success", "result": 4}''
    \<and> py_parse ''10/2'' = Parsed (BinOp (IntLit 10) Div (IntLit 2))
    \<and> arith_value (BinOp (IntLit 10) Div (IntLit 2)) = Some 5
    \<and> within_limits (BinOp (IntLit 10) Div (IntLit 2))
    \<and> calculate invalid_syntax ''10/2'' = Returns ''{"status": "success", "result": 5.0}''\<close>
proof -
  have v1: "arith_value (BinOp (IntLit 2) Add (IntLit 2)) = Some 4" by simp
  have w1: "within_limits (BinOp (IntLit 2) Add (IntLit 2))"
    by (simp add: value_fits_def fits_small)
  have d1: "division_free (BinOp (IntLit 2) Add (IntLit 2))" by simp
  have v2: "arith_value (BinOp (IntLit 10) Div (IntLit 2)) = Some 5" by simp
  have w2: "within_limits (BinOp (IntLit 10) Div (IntLit 2))"
    by (simp add: value_fits_def fits_small)
  from integer_arithmetic_is_exact [OF parse_2_plus_2 v1 w1, of invalid_syntax] d1
  have c1: "calculate invalid_syntax ''2+2'' = Returns ''{\"status\": \"success\", \"result\": 4}''"
    by (simp add: success_line_def json_defs)
  from integer_arithmetic_is_exact [OF parse_10_div_2 v2 w2, of invalid_syntax]
  have c2: "calculate invalid_syntax ''10/2'' = Returns ''{\"status\": \"success\", \"result\": 5.0}''"
    by (simp add: success_line_def json_defs)
  from parse_2_plus_2 v1 w1 d1 c1 parse_10_div_2 v2 w2 c2 show ?thesis by blast
qed

text \<open>
  C2 does not hold as stated, for every arithmetic expression with a mathematical value:
  a quotient is computed as a float, and \<^verbatim>\<open>10**400/1\<close>, whose value is \<open>10 ^ 400\<close>, is
  beyond the largest float. \<^verbatim>\<open>eval\<close> raises \<^verbatim>\<open>OverflowError\<close> and \<^verbatim>\<open>calculate\<close> returns
  a failure line.
\<close>

theorem quotient_overflow_counterexample:
  \<open>py_parse ''10**400/1'' = Parsed (BinOp (BinOp (IntLit 10) Power (IntLit 400)) Div (IntLit 1))
    \<and> arith_value (BinOp (BinOp (IntLit 10) Power (IntLit 400)) Div (IntLit 1)) = Some (10 ^ 400)
    \<and> calculate invalid_syntax ''10**400/1''
        = Returns ''{"status": "error", "message": "integer division result too large for a float"}''\<close>
proof -
  have v: "arith_value (BinOp (BinOp (IntLit 10) Power (IntLit 400)) Div (IntLit 1)) = Some (10 ^ 400)"
    by simp
  have "eval_expr allowed_names [] (BinOp (IntLit 10) Power (IntLit 400)) = Returns (VInt (10 ^ 400))"
    by (simp add: binop_def int_binop_def int_result_def fits_medium)
  then have "eval_expr allowed_names [] (BinOp (BinOp (IntLit 10) Power (IntLit 400)) Div (IntLit 1))
      = Raises (PyExn OverflowError ''integer division result too large for a float'')"
    by (simp add: binop_def int_binop_def true_divide_def)
  then have "calculate invalid_syntax ''10**400/1''
        = Returns ''{\"status\": \"error\", \"message\": \"integer division result too large for a float\"}''"
    by (simp add: calculate_cases py_eval_def parse_overflow error_line_def json_defs)
  with parse_overflow v show ?thesis by blast
qed

text \<open>How the parser reads signs, powers and chains of operators, on examples; the last
  three show a power with a negative exponent and a quotient that needs rounding, both
  left out of the model, and the negative zero.\<close>

lemma precedence_examples:
  \<open>calculate syntax_msg ''-2**2'' = Returns ''{"status": "success", "result": -4}''\<close>
  \<open>calculate syntax_msg ''2**3**2'' = Returns ''{"status": "success", "result": 512}''\<close>
  \<open>calculate syntax_msg ''2+3*4'' = Returns ''{"status": "success", "result": 14}''\<close>
  \<open>calculate syntax_msg ''(2+3)*4'' = Returns ''{"status": "success", "result": 20}''\<close>
  \<open>calculate syntax_msg ''2 - 3 - 4'' = Returns ''{"status": "success", "result": -5}''\<close>
  \<open>calculate syntax_msg ''2**-1'' = Unmodelled\<close>
  \<open>calculate syntax_msg ''1/3'' = Unmodelled\<close>
  \<open>calculate syntax_msg ''0/-5'' = Returns ''{"status": "success", "result": -0.0}''\<close>
  by (simp_all add: calculate_cases py_eval_def lexer_defs parser_defs value_defs fits_small
      success_line_def json_defs)

end
